theory Spec2Isabelle
  imports Complex_Main "HOL-Library.Sublist"
begin

section \<open>Values shared by the services\<close>

text \<open>
  A JavaScript \<open>Error\<close> object is identified with its message: the code only ever
  builds errors with \<open>new Error(msg)\<close> and reads \<open>error.message\<close>.
\<close>

datatype js_error = Error (message: string)

text \<open>\<open>String.prototype.includes\<close>: the argument occurs as a contiguous substring.\<close>

definition str_includes :: "string \<Rightarrow> string \<Rightarrow> bool" where
  "str_includes s sub = sublist sub s"

text \<open>A number (a non-negative integer) interpolated into a template literal: decimal digits.\<close>

definition digit :: "nat \<Rightarrow> char" where
  "digit d = (''0123456789'' ! d)"

function string_of_nat :: "nat \<Rightarrow> string" where
  "string_of_nat n = (if n < 10 then [digit n] else string_of_nat (n div 10) @ [digit (n mod 10)])"
  by pat_completeness auto
termination
  by (relation "measure id") auto

declare string_of_nat.simps [simp del]

text \<open>An optional string interpolated into a template literal: a missing property prints as
  \<open>undefined\<close>.\<close>

definition template :: "string option \<Rightarrow> string" where
  "template v = (case v of None \<Rightarrow> ''undefined'' | Some s \<Rightarrow> s)"

section \<open>HTTP: the outcome of \<open>fetch\<close>\<close>

text \<open>
  What \<open>await fetch(...)\<close> yields: it rejects with an error, or it resolves with a response.
  Of the response the code reads \<open>status\<close>, \<open>statusText\<close>, \<open>ok\<close>, \<open>text()\<close> and
  \<open>json()\<close>. \<open>json()\<close> rejects when the body is not JSON; the parsed value has type \<open>'j\<close>.
  Reading the body as text is taken to succeed. The field \<open>http_status\<close> is
  \<open>response.status\<close>, and \<open>body_text\<close> and \<open>body_json\<close> are what \<open>response.text()\<close> and
  \<open>response.json()\<close> settle with.
\<close>

record 'j Response =
  http_status :: nat
  statusText :: string
  body_text :: string
  body_json :: "js_error + 'j"

text \<open>\<open>response.ok\<close> is the Fetch standard's test: the status is in the range 200 to 299.\<close>

definition ok :: "('j, 'z) Response_scheme \<Rightarrow> bool" where
  "ok response = (200 \<le> http_status response \<and> http_status response \<le> 299)"

datatype 'j fetch_outcome = FetchFailed js_error | FetchResponse "'j Response"

section \<open>\<open>uploadVideo\<close>\<close>

text \<open>
  \<open>interface UploadResponse { status: string; video_id: string }\<close>. The interface is a
  compile-time annotation on the value \<open>response.json()\<close> returns, so either property can
  be missing at run time (\<open>None\<close>). The field \<open>upload_status\<close> is the property \<open>status\<close>.
\<close>

record UploadResponse =
  upload_status :: "string option"
  video_id :: "string option"

text \<open>The body of the \<open>try\<close> block of \<open>uploadVideo\<close>, from the settled \<open>fetch\<close> on:
  \<open>Inl\<close> is an exception raised inside the block.\<close>

definition uploadVideo_try :: "'j fetch_outcome \<Rightarrow> js_error + 'j" where
  "uploadVideo_try f =
     (case f of
        FetchFailed e \<Rightarrow> Inl e
      | FetchResponse response \<Rightarrow>
          if \<not> ok response then
            (let errorText = body_text response
             in Inl (Error (''Upload failed: '' @ string_of_nat (http_status response) @ '' ''
                            @ statusText response @ '' - '' @ errorText)))
          else body_json response)"

text \<open>The \<open>catch\<close> block of \<open>uploadVideo\<close>: it always throws, and which error depends on
  the caught error's message.\<close>

definition uploadVideo_catch :: "js_error \<Rightarrow> js_error" where
  "uploadVideo_catch error =
     (if str_includes (message error) ''Network request failed'' then
        Error ''Cannot connect to server. Please check your internet connection and server address.''
      else if str_includes (message error) ''timeout'' then
        Error ''Upload timed out. Please try again with a smaller video file.''
      else Error (''Upload failed: '' @ message error))"

text \<open>\<open>uploadVideo\<close>: \<open>Inr\<close> is the value the promise resolves with, \<open>Inl\<close> the error it
  rejects with.\<close>

definition uploadVideo :: "'j fetch_outcome \<Rightarrow> js_error + 'j" where
  "uploadVideo f =
     (case uploadVideo_try f of
        Inr result \<Rightarrow> Inr result
      | Inl error \<Rightarrow> Inl (uploadVideo_catch error))"

section \<open>\<open>checkServerHealth\<close>\<close>

record health =
  isHealthy :: bool
  error :: "string option"

text \<open>The \<open>try\<close> block: on a 2xx response the body is parsed with \<open>response.json()\<close> before
  the function returns, and a parse failure is an exception of the block.\<close>

definition checkServerHealth_try :: "'j fetch_outcome \<Rightarrow> js_error + health" where
  "checkServerHealth_try f =
     (case f of
        FetchFailed e \<Rightarrow> Inl e
      | FetchResponse response \<Rightarrow>
          if ok response then
            (case body_json response of
               Inl e \<Rightarrow> Inl e
             | Inr data \<Rightarrow> Inr \<lparr>isHealthy = True, error = None\<rparr>)
          else
            Inr \<lparr>isHealthy = False,
                 error = Some (''Server returned '' @ string_of_nat (http_status response) @ '': ''
                               @ statusText response)\<rparr>)"

text \<open>\<open>error.message || 'Connection failed'\<close>: the empty string is falsy.\<close>

definition checkServerHealth_catch :: "js_error \<Rightarrow> health" where
  "checkServerHealth_catch e =
     \<lparr>isHealthy = False,
      error = Some (if message e = [] then ''Connection failed'' else message e)\<rparr>"

definition checkServerHealth :: "'j fetch_outcome \<Rightarrow> js_error + health" where
  "checkServerHealth f =
     (case checkServerHealth_try f of
        Inr r \<Rightarrow> Inr r
      | Inl e \<Rightarrow> Inr (checkServerHealth_catch e))"

section \<open>The live status channel: \<open>connectToProcessing\<close>\<close>

subsection \<open>Frames\<close>

text \<open>\<open>interface ProcessingResult\<close>; \<open>result_id\<close>, \<open>result_status\<close> and \<open>result_error\<close> are its
  properties \<open>id\<close>, \<open>status\<close> and \<open>error\<close>.\<close>

record Prediction =
  class_id :: int
  class_name :: string

record ProcessingResult =
  result_id :: string
  result_status :: string
  prediction :: "Prediction option"
  processing_time :: "real option"
  timestamp :: "real option"
  video_tensor_file :: "string option"
  landmark_file :: "string option"
  landmark_shape :: "int list option"
  result_error :: "string option"

text \<open>
  \<open>interface ProcessingStatus\<close>. The frame is whatever \<open>JSON.parse\<close> returns, so \<open>status\<close>
  is any string at run time; the code compares it with \<open>processing\<close>, \<open>done\<close>,
  \<open>timeout\<close> and \<open>error\<close>. The field \<open>frame_video_id\<close> is the property \<open>video_id\<close>.
\<close>

record ProcessingStatus =
  status :: string
  frame_video_id :: "string option"
  result :: "ProcessingResult option"

subsection \<open>The socket and the closure variables\<close>

text \<open>The \<open>readyState\<close> of a WebSocket.\<close>

datatype readyState = CONNECTING | OPEN | CLOSING | CLOSED

text \<open>The calls the channel makes, in the order it makes them: to the platform
  (\<open>new WebSocket\<close>, \<open>ws.close\<close>, \<open>setTimeout(connect, delay)\<close>) and to its two callbacks.\<close>

datatype call =
    NewWebSocket string
  | WsCloseCall nat string
  | SetTimeout nat
  | StatusUpdate ProcessingStatus
  | OnError js_error

text \<open>
  The variables \<open>connect\<close> and the handlers close over. \<open>url\<close> is the constant
  \<open>wsUrl\<close> of the session; \<open>ws\<close> is \<open>null\<close> (\<open>None\<close>) or the
  socket last created, given by its \<open>readyState\<close>; \<open>timers\<close> holds the delays of the
  \<open>setTimeout(connect, delay)\<close> calls that have not fired yet (the code keeps no handle
  on them and never clears one).
\<close>

record channel =
  url :: string
  ws :: "readyState option"
  isConnected :: bool
  reconnectAttempts :: nat
  messageCount :: nat
  timers :: "nat list"
  calls :: "call list"

definition maxReconnectAttempts :: nat where
  "maxReconnectAttempts = 3"

text \<open>
  The callbacks \<open>onStatusUpdate\<close> and \<open>onError\<close> are the caller's: functions on the caller's
  state \<open>'c\<close>, taken to return normally. Calling one records the call and runs it.
\<close>

definition call_onStatusUpdate ::
  "(ProcessingStatus \<Rightarrow> 'c \<Rightarrow> 'c) \<Rightarrow> ProcessingStatus \<Rightarrow> channel \<times> 'c \<Rightarrow> channel \<times> 'c" where
  "call_onStatusUpdate onStatusUpdate data =
     (\<lambda>(ch, c). (ch\<lparr>calls := calls ch @ [StatusUpdate data]\<rparr>, onStatusUpdate data c))"

definition call_onError ::
  "(js_error \<Rightarrow> 'c \<Rightarrow> 'c) \<Rightarrow> js_error \<Rightarrow> channel \<times> 'c \<Rightarrow> channel \<times> 'c" where
  "call_onError onError e =
     (\<lambda>(ch, c). (ch\<lparr>calls := calls ch @ [OnError e]\<rparr>, onError e c))"

text \<open>
  \<open>ws?.close(code, reason)\<close>. The call is recorded; by the WebSocket interface it starts the
  closing handshake of a socket that is connecting or open and does nothing to one that is
  already closing or closed.
\<close>

definition ws_close :: "nat \<Rightarrow> string \<Rightarrow> channel \<Rightarrow> channel" where
  "ws_close code reason ch =
     (case ws ch of
        None \<Rightarrow> ch
      | Some rs \<Rightarrow>
          ch\<lparr>ws := Some (if rs = CONNECTING \<or> rs = OPEN then CLOSING else rs),
             calls := calls ch @ [WsCloseCall code reason]\<rparr>)"

subsection \<open>\<open>connect\<close> and the four handlers\<close>

text \<open>
  \<open>connect\<close>: \<open>new WebSocket(wsUrl)\<close> throws for the URLs the platform rejects
  (\<open>ctor_throws\<close>); the \<open>catch\<close> reports that through \<open>onError\<close> and leaves \<open>ws\<close> as it was.
\<close>

definition connect ::
  "(string \<Rightarrow> bool) \<Rightarrow> (js_error \<Rightarrow> 'c \<Rightarrow> 'c) \<Rightarrow> channel \<times> 'c \<Rightarrow> channel \<times> 'c" where
  "connect ctor_throws onError =
     (\<lambda>(ch, c).
        let ch1 = ch\<lparr>calls := calls ch @ [NewWebSocket (url ch)]\<rparr>
        in if ctor_throws (url ch) then
             call_onError onError (Error ''Failed to establish WebSocket connection'') (ch1, c)
           else (ch1\<lparr>ws := Some CONNECTING\<rparr>, c))"

definition ws_onopen :: "channel \<times> 'c \<Rightarrow> channel \<times> 'c" where
  "ws_onopen = (\<lambda>(ch, c). (ch\<lparr>isConnected := True, reconnectAttempts := 0\<rparr>, c))"

text \<open>\<open>ws.onmessage\<close>; \<open>parsed\<close> is the outcome of \<open>JSON.parse(event.data)\<close>, \<open>None\<close> when it
  throws.\<close>

definition ws_onmessage ::
  "(ProcessingStatus \<Rightarrow> 'c \<Rightarrow> 'c) \<Rightarrow> (js_error \<Rightarrow> 'c \<Rightarrow> 'c) \<Rightarrow> ProcessingStatus option
     \<Rightarrow> channel \<times> 'c \<Rightarrow> channel \<times> 'c" where
  "ws_onmessage onStatusUpdate onError parsed =
     (\<lambda>(ch, c).
        let ch1 = ch\<lparr>messageCount := messageCount ch + 1\<rparr>
        in case parsed of
             None \<Rightarrow> call_onError onError (Error ''Failed to parse server response'') (ch1, c)
           | Some data \<Rightarrow>
               (let (ch2, c2) = call_onStatusUpdate onStatusUpdate data (ch1, c)
                in if status data = ''done'' \<or> status data = ''timeout'' \<or> status data = ''error''
                   then (ws_close 1000 ''Processing complete'' ch2, c2)
                   else (ch2, c2)))"

definition ws_onerror :: "(js_error \<Rightarrow> 'c \<Rightarrow> 'c) \<Rightarrow> channel \<times> 'c \<Rightarrow> channel \<times> 'c" where
  "ws_onerror onError = call_onError onError (Error ''WebSocket connection error'')"

text \<open>\<open>ws.onclose\<close>, with \<open>event.code\<close>.\<close>

definition ws_onclose ::
  "(js_error \<Rightarrow> 'c \<Rightarrow> 'c) \<Rightarrow> nat \<Rightarrow> channel \<times> 'c \<Rightarrow> channel \<times> 'c" where
  "ws_onclose onError code =
     (\<lambda>(ch, c).
        let ch1 = ch\<lparr>isConnected := False\<rparr>
        in if code \<noteq> 1000 \<and> reconnectAttempts ch1 < maxReconnectAttempts then
             (let ch2 = ch1\<lparr>reconnectAttempts := reconnectAttempts ch1 + 1\<rparr>;
                  retryDelay = 2000 * reconnectAttempts ch2
              in (ch2\<lparr>timers := timers ch2 @ [retryDelay],
                      calls := calls ch2 @ [SetTimeout retryDelay]\<rparr>, c))
           else if code \<noteq> 1000 then
             call_onError onError
               (Error ''WebSocket connection failed after multiple attempts'') (ch1, c)
           else (ch1, c))"

subsection \<open>\<open>connectToProcessing\<close> and the teardown function it returns\<close>

record ApiService =
  baseUrl :: string
  wsUrl :: string

definition new_channel :: "string \<Rightarrow> channel" where
  "new_channel u =
     \<lparr>url = u, ws = None, isConnected = False, reconnectAttempts = 0, messageCount = 0,
      timers = [], calls = []\<rparr>"

text \<open>The synchronous part of \<open>connectToProcessing\<close>: the variables are initialised and
  \<open>connect()\<close> runs once.\<close>

definition connectToProcessing ::
  "(string \<Rightarrow> bool) \<Rightarrow> ApiService \<Rightarrow> string \<Rightarrow> (ProcessingStatus \<Rightarrow> 'c \<Rightarrow> 'c)
     \<Rightarrow> (js_error \<Rightarrow> 'c \<Rightarrow> 'c) \<Rightarrow> 'c \<Rightarrow> channel \<times> 'c" where
  "connectToProcessing ctor_throws this videoId onStatusUpdate onError c =
     connect ctor_throws onError (new_channel (wsUrl this @ ''/ws/'' @ videoId), c)"

text \<open>The returned cleanup function.\<close>

definition teardown :: "channel \<Rightarrow> channel" where
  "teardown ch =
     (if ws ch \<noteq> None \<and> isConnected ch then ws_close 1000 ''Manual disconnect'' ch else ch)"

subsection \<open>The events of a channel session\<close>

text \<open>
  What the platform does to the channel: it opens the socket, delivers a message, signals
  an error, closes the socket with a code, or fires a reconnection timer. An event that
  the platform cannot produce in the current state leaves the state alone: \<open>open\<close> needs a
  connecting socket, a message an open one, \<open>error\<close> and \<open>close\<close> a socket that is not
  closed yet, and a timer must be pending to fire. \<open>readyState\<close> changes before the
  handler runs.
\<close>

datatype ws_event =
    WsOpen
  | WsMessage "ProcessingStatus option"
  | WsError
  | WsClose nat
  | TimerConnect

fun channel_step ::
  "(string \<Rightarrow> bool) \<Rightarrow> (ProcessingStatus \<Rightarrow> 'c \<Rightarrow> 'c) \<Rightarrow> (js_error \<Rightarrow> 'c \<Rightarrow> 'c)
     \<Rightarrow> ws_event \<Rightarrow> channel \<times> 'c \<Rightarrow> channel \<times> 'c" where
  "channel_step ctor_throws onStatusUpdate onError WsOpen (ch, c) =
     (if ws ch = Some CONNECTING then ws_onopen (ch\<lparr>ws := Some OPEN\<rparr>, c) else (ch, c))"
| "channel_step ctor_throws onStatusUpdate onError (WsMessage parsed) (ch, c) =
     (if ws ch = Some OPEN then ws_onmessage onStatusUpdate onError parsed (ch, c) else (ch, c))"
| "channel_step ctor_throws onStatusUpdate onError WsError (ch, c) =
     (if ws ch = Some CONNECTING \<or> ws ch = Some OPEN \<or> ws ch = Some CLOSING
      then ws_onerror onError (ch, c) else (ch, c))"
| "channel_step ctor_throws onStatusUpdate onError (WsClose code) (ch, c) =
     (if ws ch = Some CONNECTING \<or> ws ch = Some OPEN \<or> ws ch = Some CLOSING
      then ws_onclose onError code (ch\<lparr>ws := Some CLOSED\<rparr>, c) else (ch, c))"
| "channel_step ctor_throws onStatusUpdate onError TimerConnect (ch, c) =
     (case timers ch of
        [] \<Rightarrow> (ch, c)
      | d # ds \<Rightarrow> connect ctor_throws onError (ch\<lparr>timers := ds\<rparr>, c))"

text \<open>A session runs the events in their order.\<close>

fun channel_run ::
  "(string \<Rightarrow> bool) \<Rightarrow> (ProcessingStatus \<Rightarrow> 'c \<Rightarrow> 'c) \<Rightarrow> (js_error \<Rightarrow> 'c \<Rightarrow> 'c)
     \<Rightarrow> ws_event list \<Rightarrow> channel \<times> 'c \<Rightarrow> channel \<times> 'c" where
  "channel_run ctor_throws onStatusUpdate onError [] s = s"
| "channel_run ctor_throws onStatusUpdate onError (ev # evs) s =
     channel_run ctor_throws onStatusUpdate onError evs
       (channel_step ctor_throws onStatusUpdate onError ev s)"

section \<open>The orchestrator: \<open>processVideo\<close>\<close>

subsection \<open>The promise, the timers and what the caller observes\<close>

text \<open>The promise \<open>processVideo\<close> returns.\<close>

datatype promise = Pending | Fulfilled ProcessingStatus | Rejected js_error

text \<open>A timer made by \<open>setTimeout\<close>, with its delay in milliseconds while it is pending.\<close>

datatype timer = Armed nat | Cleared | Fired

text \<open>
  What the caller of \<open>processVideo\<close> observes, in order: the calls of its two callbacks
  \<open>onProgress\<close> and \<open>onStatusUpdate\<close>, and the settlement of the promise.
\<close>

datatype observation = Progress real | StatusText string | Settled promise

text \<open>
  The variables of one invocation: the promise, the overall timer \<open>timeoutId\<close>, the timer
  of the upload race, whether \<open>uploadVideo\<close> and the race \<open>Promise.race([...])\<close> are still
  pending, whether \<open>wsCleanup\<close> has been assigned, how often \<open>Math.random()\<close> was called,
  and the observations so far.
\<close>

record workflow =
  promise :: promise
  timeoutId :: timer
  uploadTimer :: timer
  uploadPending :: bool
  racePending :: bool
  wsCleanup :: bool
  randomCalls :: nat
  trace :: "observation list"

text \<open>
  The resolving functions of a promise: the first call settles it, and a call on a
  promise that is settled does nothing (ECMAScript, Promise Resolve Functions).
\<close>

definition resolve :: "ProcessingStatus \<Rightarrow> workflow \<Rightarrow> workflow" where
  "resolve v w =
     (if promise w = Pending
      then w\<lparr>promise := Fulfilled v, trace := trace w @ [Settled (Fulfilled v)]\<rparr> else w)"

definition reject :: "js_error \<Rightarrow> workflow \<Rightarrow> workflow" where
  "reject e w =
     (if promise w = Pending
      then w\<lparr>promise := Rejected e, trace := trace w @ [Settled (Rejected e)]\<rparr> else w)"

text \<open>\<open>clearTimeout(timeoutId)\<close>: a pending timer is cancelled, any other is left alone.\<close>

definition clearTimeout :: "workflow \<Rightarrow> workflow" where
  "clearTimeout w = (case timeoutId w of Armed d \<Rightarrow> w\<lparr>timeoutId := Cleared\<rparr> | _ \<Rightarrow> w)"

text \<open>The caller's callbacks: each call is observed, and returns normally.\<close>

definition user_onProgress :: "real \<Rightarrow> workflow \<Rightarrow> workflow" where
  "user_onProgress p w = w\<lparr>trace := trace w @ [Progress p]\<rparr>"

definition user_onStatusUpdate :: "string \<Rightarrow> workflow \<Rightarrow> workflow" where
  "user_onStatusUpdate t w = w\<lparr>trace := trace w @ [StatusText t]\<rparr>"

subsection \<open>The two callbacks given to the channel\<close>

text \<open>The status callback, a \<open>switch\<close> without default; \<open>random k\<close> is what the \<open>k\<close>-th call
  of \<open>Math.random()\<close> returns.\<close>

definition statusCallback :: "(nat \<Rightarrow> real) \<Rightarrow> ProcessingStatus \<Rightarrow> workflow \<Rightarrow> workflow" where
  "statusCallback random st w =
     (if status st = ''processing'' then
        (let currentProgress = min 90 (40 + random (randomCalls w) * 30);
             w1 = w\<lparr>randomCalls := randomCalls w + 1\<rparr>;
             w2 = user_onProgress currentProgress w1
         in user_onStatusUpdate ''Processing landmarks and analyzing gestures...'' w2)
      else if status st = ''done'' then
        (let w1 = clearTimeout w;
             w2 = user_onProgress 100 w1;
             w3 = user_onStatusUpdate ''Analysis complete!'' w2
         in resolve st w3)
      else if status st = ''timeout'' then
        (let w1 = clearTimeout w;
             w2 = user_onProgress 100 w1;
             w3 = user_onStatusUpdate ''Processing timeout'' w2
         in reject (Error ''Server processing timed out'') w3)
      else if status st = ''error'' then
        (let w1 = clearTimeout w;
             w2 = user_onProgress 100 w1;
             w3 = user_onStatusUpdate ''Processing failed'' w2
         in reject (Error ''Server processing error'') w3)
      else w)"

definition errorCallback :: "js_error \<Rightarrow> workflow \<Rightarrow> workflow" where
  "errorCallback e w = reject e (clearTimeout w)"

subsection \<open>The body of \<open>processVideo\<close>\<close>

text \<open>The state of an invocation: the channel, once \<open>connectToProcessing\<close> has been called,
  and the variables of the workflow.\<close>

type_synonym invocation = "channel option \<times> workflow"

text \<open>What the platform decides: which URLs \<open>new WebSocket\<close> rejects, and the values of
  \<open>Math.random()\<close>.\<close>

record platform =
  ctor_throws :: "string \<Rightarrow> bool"
  random :: "nat \<Rightarrow> real"

text \<open>The executor up to its first \<open>await\<close>: the overall timer is set, the first status and
  progress are reported, \<open>uploadVideo\<close> is started and the timer of the race is set.\<close>

definition processVideo_start :: invocation where
  "processVideo_start =
     (let w0 = \<lparr>promise = Pending, timeoutId = Armed 180000, uploadTimer = Armed 120000,
                uploadPending = True, racePending = True, wsCleanup = False,
                randomCalls = 0, trace = []\<rparr>;
          w1 = user_onStatusUpdate ''Uploading video...'' w0;
          w2 = user_onProgress 10 w1
      in (None, w2))"

text \<open>The \<open>catch\<close> block of the executor.\<close>

definition processVideo_catch :: "js_error \<Rightarrow> invocation \<Rightarrow> invocation" where
  "processVideo_catch e =
     (\<lambda>(cho, w).
        let w1 = clearTimeout w;
            cho1 = (if wsCleanup w1 then map_option teardown cho else cho)
        in (cho1, reject e w1))"

text \<open>The executor after the \<open>await\<close>, once the race has settled with \<open>r\<close>.\<close>

definition processVideo_resume ::
  "platform \<Rightarrow> ApiService \<Rightarrow> js_error + UploadResponse \<Rightarrow> invocation \<Rightarrow> invocation" where
  "processVideo_resume pf this r =
     (\<lambda>(cho, w).
        case r of
          Inl e \<Rightarrow> processVideo_catch e (cho, w)
        | Inr uploadResult \<Rightarrow>
            if upload_status uploadResult \<noteq> Some ''received'' then
              processVideo_catch
                (Error (''Upload failed with status: '' @ template (upload_status uploadResult)))
                (cho, w)
            else
              (let w1 = user_onProgress 30 w;
                   w2 = user_onStatusUpdate ''Video uploaded, starting analysis...'' w1;
                   (ch, w3) = connectToProcessing (ctor_throws pf) this
                                (template (video_id uploadResult))
                                (statusCallback (random pf)) errorCallback w2
               in (Some ch, w3\<lparr>wsCleanup := True\<rparr>)))"

subsection \<open>The events of an invocation\<close>

text \<open>
  The \<open>fetch\<close> of the upload settles, the timer of the race fires, the overall timer fires,
  or something happens on the channel. A \<open>fetch\<close> settles once and a timer fires only
  while it is pending. The race settles with the first of its two promises to settle;
  the later one changes nothing.
\<close>

datatype event =
    FetchSettled "UploadResponse fetch_outcome"
  | UploadTimerFired
  | DeadlineFired
  | Socket ws_event

fun step :: "platform \<Rightarrow> ApiService \<Rightarrow> event \<Rightarrow> invocation \<Rightarrow> invocation" where
  "step pf this (FetchSettled f) (cho, w) =
     (if uploadPending w then
        (let w1 = w\<lparr>uploadPending := False\<rparr>
         in if racePending w1
            then processVideo_resume pf this (uploadVideo f) (cho, w1\<lparr>racePending := False\<rparr>)
            else (cho, w1))
      else (cho, w))"
| "step pf this UploadTimerFired (cho, w) =
     (case uploadTimer w of
        Armed d \<Rightarrow>
          (let w1 = w\<lparr>uploadTimer := Fired\<rparr>
           in if racePending w1
              then processVideo_resume pf this (Inl (Error ''Upload timeout after 2 minutes''))
                     (cho, w1\<lparr>racePending := False\<rparr>)
              else (cho, w1))
      | _ \<Rightarrow> (cho, w))"
| "step pf this DeadlineFired (cho, w) =
     (case timeoutId w of
        Armed d \<Rightarrow>
          (cho, reject (Error ''Overall processing timeout (3 minutes)'') (w\<lparr>timeoutId := Fired\<rparr>))
      | _ \<Rightarrow> (cho, w))"
| "step pf this (Socket ev) (cho, w) =
     (case cho of
        None \<Rightarrow> (cho, w)
      | Some ch \<Rightarrow>
          (let (ch1, w1) = channel_step (ctor_throws pf)
                             (statusCallback (random pf)) errorCallback ev (ch, w)
           in (Some ch1, w1)))"

subsection \<open>Runs and settlements\<close>

text \<open>An invocation runs the events in their order.\<close>

fun run :: "platform \<Rightarrow> ApiService \<Rightarrow> event list \<Rightarrow> invocation \<Rightarrow> invocation" where
  "run pf this [] s = s"
| "run pf this (e # es) s = run pf this es (step pf this e s)"

text \<open>The settlements of the promise among the observations.\<close>

fun settlements :: "observation list \<Rightarrow> promise list" where
  "settlements [] = []"
| "settlements (Settled p # obs) = p # settlements obs"
| "settlements (x # obs) = settlements obs"

section \<open>Configuration: \<open>config.ts\<close>\<close>

record AppConfig =
  API_BASE_URL :: string
  WS_BASE_URL :: string
  UPLOAD_TIMEOUT :: nat
  PROCESSING_TIMEOUT :: nat
  MAX_RETRY_ATTEMPTS :: nat

definition DEV_CONFIG :: AppConfig where
  "DEV_CONFIG =
     \<lparr>API_BASE_URL = ''https://boulevard-thorough-lives-cuts.trycloudflare.com'',
      WS_BASE_URL = ''wss://boulevard-thorough-lives-cuts.trycloudflare.com'',
      UPLOAD_TIMEOUT = 60000, PROCESSING_TIMEOUT = 180000, MAX_RETRY_ATTEMPTS = 3\<rparr>"

definition PROD_CONFIG :: AppConfig where
  "PROD_CONFIG =
     \<lparr>API_BASE_URL = ''http://YOUR_PRODUCTION_SERVER:8000'',
      WS_BASE_URL = ''ws://YOUR_PRODUCTION_SERVER:8000'',
      UPLOAD_TIMEOUT = 60000, PROCESSING_TIMEOUT = 180000, MAX_RETRY_ATTEMPTS = 5\<rparr>"

text \<open>\<open>CONFIG\<close>, selected by \<open>isDevelopment\<close>. \<open>ApiService.ts\<close> does not import it.\<close>

definition CONFIG :: "bool \<Rightarrow> AppConfig" where
  "CONFIG isDevelopment = (if isDevelopment then DEV_CONFIG else PROD_CONFIG)"

section \<open>Invariants of an invocation\<close>

text \<open>
  A property of the workflow variables is kept by an invocation when the two callbacks of
  the channel, the firing of the overall timer, the caller's callbacks and the
  bookkeeping of the upload race keep it.
\<close>

definition kept :: "(workflow \<Rightarrow> bool) \<Rightarrow> (nat \<Rightarrow> real) \<Rightarrow> bool" where
  "kept P rnd \<longleftrightarrow>
     (\<forall>st w. P w \<longrightarrow> P (statusCallback rnd st w)) \<and>
     (\<forall>e w. P w \<longrightarrow> P (errorCallback e w)) \<and>
     (\<forall>e w d. P w \<longrightarrow> timeoutId w = Armed d \<longrightarrow> P (reject e (w\<lparr>timeoutId := Fired\<rparr>))) \<and>
     (\<forall>p w. P w \<longrightarrow> P (user_onProgress p w)) \<and>
     (\<forall>t w. P w \<longrightarrow> P (user_onStatusUpdate t w)) \<and>
     (\<forall>b w. P w \<longrightarrow> P (w\<lparr>uploadPending := b\<rparr>)) \<and>
     (\<forall>b w. P w \<longrightarrow> P (w\<lparr>racePending := b\<rparr>)) \<and>
     (\<forall>b w. P w \<longrightarrow> P (w\<lparr>wsCleanup := b\<rparr>)) \<and>
     (\<forall>t w. P w \<longrightarrow> P (w\<lparr>uploadTimer := t\<rparr>))"

text \<open>
  The promise and the observations agree: the observed settlements are none while the
  promise is pending and exactly its state afterwards; while it is pending the overall
  timer is still armed; and a promise that is fulfilled holds a frame \<open>done\<close>.
\<close>

fun armed :: "timer \<Rightarrow> bool" where
  "armed (Armed d) = True"
| "armed t = False"

definition settled_once :: "workflow \<Rightarrow> bool" where
  "settled_once w \<longleftrightarrow>
     settlements (trace w) = (if promise w = Pending then [] else [promise w]) \<and>
     (promise w = Pending \<longrightarrow> armed (timeoutId w)) \<and>
     (case promise w of Fulfilled v \<Rightarrow> status v = ''done'' | _ \<Rightarrow> True)"


section \<open>Concrete responses and sessions\<close>

text \<open>A response of a gateway that gave up on the upstream server.\<close>

definition gateway_timeout_response :: "UploadResponse Response" where
  "gateway_timeout_response =
     \<lparr>http_status = 504, statusText = ''Gateway Timeout'', body_text = ''upstream timeout'',
      body_json = Inl (Error ''JSON Parse error: Unexpected token: u'')\<rparr>"

text \<open>The response of the specification's scenario: status 500 with the body \<open>disk full\<close>.\<close>

definition disk_full_response :: "UploadResponse Response" where
  "disk_full_response =
     \<lparr>http_status = 500, statusText = ''Internal Server Error'', body_text = ''disk full'',
      body_json = Inl (Error ''JSON Parse error: Unexpected token: d'')\<rparr>"

text \<open>A health endpoint that answers 200 with the plain text \<open>OK\<close>, which is not JSON, and
  one that answers 200 with a JSON body.\<close>

definition ok_text_response :: "unit Response" where
  "ok_text_response =
     \<lparr>http_status = 200, statusText = ''OK'', body_text = ''OK'',
      body_json = Inl (Error ''JSON Parse error: Unexpected token: O'')\<rparr>"

definition ok_json_response :: "unit Response" where
  "ok_json_response =
     \<lparr>http_status = 200, statusText = ''OK'', body_text = ''{}'', body_json = Inr ()\<rparr>"

text \<open>The error the channel reports when the reconnection attempts are used up.\<close>

definition exhausted :: js_error where
  "exhausted = Error ''WebSocket connection failed after multiple attempts''"

text \<open>A channel session whose caller ignores both callbacks, on a platform that accepts
  the URL, right after \<open>connectToProcessing\<close> has returned.\<close>

definition silent :: "'a \<Rightarrow> unit \<Rightarrow> unit" where
  "silent x c = c"

definition never_throws :: "string \<Rightarrow> bool" where
  "never_throws u = False"

definition fresh_session :: "channel \<times> unit" where
  "fresh_session =
     connectToProcessing never_throws \<lparr>baseUrl = ''https://host'', wsUrl = ''wss://host''\<rparr> ''v1''
       silent silent ()"

text \<open>Four abnormal closures in a row, each reconnection made but never opened.\<close>

definition abnormal_closes :: "ws_event list" where
  "abnormal_closes =
     [WsClose 1006, TimerConnect, WsClose 1006, TimerConnect, WsClose 1006, TimerConnect,
      WsClose 1006]"

text \<open>The session after three reconnections that were made and never opened.\<close>

definition retried_session :: "channel \<times> unit" where
  "retried_session =
     channel_run never_throws silent silent
       [WsClose 1006, TimerConnect, WsClose 1006, TimerConnect, WsClose 1006, TimerConnect]
       fresh_session"

text \<open>The session once the socket is open; the same after the connection dropped with
  code 1006, a reconnection being scheduled.\<close>

definition open_session :: "channel \<times> unit" where
  "open_session = channel_run never_throws silent silent [WsOpen] fresh_session"

definition dropped_session :: "channel \<times> unit" where
  "dropped_session = channel_run never_throws silent silent [WsOpen, WsClose 1006] fresh_session"

text \<open>Frames of the server.\<close>

definition frame :: "string \<Rightarrow> ProcessingStatus" where
  "frame s = \<lparr>status = s, frame_video_id = Some ''v1'', result = None\<rparr>"

text \<open>The open session after the frame \<open>done\<close>, before the close event of the socket.\<close>

definition finished_session :: "channel \<times> unit" where
  "finished_session =
     channel_run never_throws silent silent [WsOpen, WsMessage (Some (frame ''done''))]
       fresh_session"

text \<open>The service as \<open>new ApiService()\<close> builds it, a platform that accepts every URL and
  whose \<open>Math.random()\<close> returns one half, and an accepted upload.\<close>

definition apiService :: ApiService where
  "apiService =
     \<lparr>baseUrl = ''https://boulevard-thorough-lives-cuts.trycloudflare.com'',
      wsUrl = ''wss://boulevard-thorough-lives-cuts.trycloudflare.com''\<rparr>"

definition device :: platform where
  "device = \<lparr>ctor_throws = never_throws, random = (\<lambda>k. 1 / 2)\<rparr>"

definition received_response :: "UploadResponse Response" where
  "received_response =
     \<lparr>http_status = 200, statusText = ''OK'', body_text = [],
      body_json = Inr \<lparr>upload_status = Some ''received'', video_id = Some ''v1''\<rparr>\<rparr>"

text \<open>The upload is accepted and the socket opens; then, the server still processing, the
  overall timer fires, and afterwards the server sends one more \<open>processing\<close> frame.\<close>

definition until_deadline :: "event list" where
  "until_deadline =
     [FetchSettled (FetchResponse received_response), Socket WsOpen, DeadlineFired]"

definition past_deadline :: "event list" where
  "past_deadline = until_deadline @ [Socket (WsMessage (Some (frame ''processing'')))]"

text \<open>A run that succeeds, and a run that fails because the network is unreachable.\<close>

definition successful_run :: "event list" where
  "successful_run =
     [FetchSettled (FetchResponse received_response), Socket WsOpen,
      Socket (WsMessage (Some (frame ''processing''))), Socket (WsMessage (Some (frame ''done'')))]"


subsection \<open>States of the concrete runs\<close>

text \<open>The invocation once the accepted upload has opened the channel, and once the socket
  is open.\<close>

definition connected :: invocation where
  "connected =
     (Some \<lparr>url = ''wss://boulevard-thorough-lives-cuts.trycloudflare.com/ws/v1'',
            ws = Some CONNECTING, isConnected = False, reconnectAttempts = 0,
            messageCount = 0, timers = [],
            calls = [NewWebSocket
                       ''wss://boulevard-thorough-lives-cuts.trycloudflare.com/ws/v1'']\<rparr>,
      \<lparr>promise = Pending, timeoutId = Armed 180000, uploadTimer = Armed 120000,
       uploadPending = False, racePending = False, wsCleanup = True, randomCalls = 0,
       trace = [StatusText ''Uploading video...'', Progress 10, Progress 30,
                StatusText ''Video uploaded, starting analysis...'']\<rparr>)"

definition opened :: invocation where
  "opened =
     (Some \<lparr>url = ''wss://boulevard-thorough-lives-cuts.trycloudflare.com/ws/v1'',
            ws = Some OPEN, isConnected = True, reconnectAttempts = 0,
            messageCount = 0, timers = [],
            calls = [NewWebSocket
                       ''wss://boulevard-thorough-lives-cuts.trycloudflare.com/ws/v1'']\<rparr>,
      \<lparr>promise = Pending, timeoutId = Armed 180000, uploadTimer = Armed 120000,
       uploadPending = False, racePending = False, wsCleanup = True, randomCalls = 0,
       trace = [StatusText ''Uploading video...'', Progress 10, Progress 30,
                StatusText ''Video uploaded, starting analysis...'']\<rparr>)"

text \<open>The open invocation after the overall timer has fired.\<close>

definition timed_out :: invocation where
  "timed_out =
     (Some \<lparr>url = ''wss://boulevard-thorough-lives-cuts.trycloudflare.com/ws/v1'',
            ws = Some OPEN, isConnected = True, reconnectAttempts = 0,
            messageCount = 0, timers = [],
            calls = [NewWebSocket
                       ''wss://boulevard-thorough-lives-cuts.trycloudflare.com/ws/v1'']\<rparr>,
      \<lparr>promise = Rejected (Error ''Overall processing timeout (3 minutes)''),
       timeoutId = Fired, uploadTimer = Armed 120000,
       uploadPending = False, racePending = False, wsCleanup = True, randomCalls = 0,
       trace = [StatusText ''Uploading video...'', Progress 10, Progress 30,
                StatusText ''Video uploaded, starting analysis...'',
                Settled (Rejected (Error ''Overall processing timeout (3 minutes)''))]\<rparr>)"

text \<open>A 2xx response whose body has no \<open>status\<close>.\<close>

definition statusless_response :: "UploadResponse Response" where
  "statusless_response =
     \<lparr>http_status = 201, statusText = ''Created'', body_text = [],
      body_json = Inr \<lparr>upload_status = None, video_id = Some ''v1''\<rparr>\<rparr>"

text \<open>The number of reconnections a session has scheduled: its calls of
  \<open>setTimeout(connect, delay)\<close>.\<close>

fun scheduled :: "call list \<Rightarrow> nat" where
  "scheduled [] = 0"
| "scheduled (SetTimeout d # cs) = Suc (scheduled cs)"
| "scheduled (c # cs) = scheduled cs"

text \<open>A session whose every reconnection opens and then drops again, five times over.\<close>

definition reopening_run :: "ws_event list" where
  "reopening_run =
     [WsOpen, WsClose 1006, TimerConnect, WsOpen, WsClose 1006, TimerConnect,
      WsOpen, WsClose 1006, TimerConnect, WsOpen, WsClose 1006, TimerConnect,
      WsOpen, WsClose 1006, TimerConnect]"

text \<open>An upload answered 200 with a page of HTML, which is not JSON.\<close>

definition html_upload_response :: "UploadResponse Response" where
  "html_upload_response =
     \<lparr>http_status = 200, statusText = ''OK'', body_text = ''<html>'',
      body_json = Inl (Error ''JSON Parse error: Unexpected token: <'')\<rparr>"


section \<open>Properties of \<open>uploadVideo\<close> and \<open>checkServerHealth\<close>\<close>

lemmas str_eval = str_includes_def sublist_code prefix_code string_of_nat.simps digit_def

subsection \<open>The error of a response that is not 2xx\<close>

text \<open>
  The error thrown for a response that is not 2xx is thrown inside the \<open>try\<close> block, so
  the \<open>catch\<close> block of the same function receives it. When its message matches neither
  pattern of the \<open>catch\<close> block, the rejection carries it behind a second
  \<open>Upload failed: \<close>.
\<close>

lemma uploadVideo_http_error_message:
  assumes "\<not> ok response"
    and "m = ''Upload failed: '' @ string_of_nat (http_status response) @ '' ''
               @ statusText response @ '' - '' @ body_text response"
    and "\<not> str_includes m ''Network request failed''" and "\<not> str_includes m ''timeout''"
  shows "uploadVideo (FetchResponse response) = Inl (Error (''Upload failed: '' @ m))"
  using assms by (simp add: uploadVideo_def uploadVideo_try_def uploadVideo_catch_def)

lemma uploadVideo_disk_full:
  "uploadVideo (FetchResponse disk_full_response) =
     Inl (Error ''Upload failed: Upload failed: 500 Internal Server Error - disk full'') \<and>
   str_includes ''Upload failed: Upload failed: 500 Internal Server Error - disk full'' ''500'' \<and>
   str_includes ''Upload failed: Upload failed: 500 Internal Server Error - disk full''
     ''disk full''"
  by (simp add: disk_full_response_def uploadVideo_def uploadVideo_try_def uploadVideo_catch_def
      ok_def str_eval)

text \<open>
  Claim C6. Every response of the upload that is not 2xx makes \<open>uploadVideo\<close> fail with an
  error whose message contains the status code, the status text and the body.

  The code at a response 504 \<open>Gateway Timeout\<close> with the body \<open>upstream timeout\<close>: the
  message built from status, status text and body contains \<open>timeout\<close>, the \<open>catch\<close> block
  takes it for a timeout of the request, and the rejection's message contains neither the
  status code nor the body.
\<close>

theorem uploadVideo_http_error_mentioning_timeout:
  "\<not> ok gateway_timeout_response \<and>
   uploadVideo (FetchResponse gateway_timeout_response) =
     Inl (Error ''Upload timed out. Please try again with a smaller video file.'') \<and>
   \<not> str_includes ''Upload timed out. Please try again with a smaller video file.'' ''504'' \<and>
   \<not> str_includes ''Upload timed out. Please try again with a smaller video file.''
         ''upstream timeout''"
  by (simp add: gateway_timeout_response_def uploadVideo_def uploadVideo_try_def
      uploadVideo_catch_def ok_def str_eval)

subsection \<open>The health check\<close>

text \<open>
  Claim C7, as stated: \<open>checkServerHealth\<close> returns healthy on any 2xx response. It does not
  on a 2xx response whose body is not JSON: \<open>response.json()\<close> rejects inside the \<open>try\<close>
  block and the \<open>catch\<close> block reports the server as unhealthy.
\<close>

theorem checkServerHealth_2xx_not_json:
  "ok ok_text_response \<and>
   checkServerHealth (FetchResponse ok_text_response) =
     Inr \<lparr>isHealthy = False, error = Some ''JSON Parse error: Unexpected token: O''\<rparr>"
  by (simp add: ok_text_response_def checkServerHealth_def checkServerHealth_try_def
      checkServerHealth_catch_def ok_def)

text \<open>
  Claim C7, amended. Whatever the outcome of the request, \<open>checkServerHealth\<close> resolves and
  never rejects. The result is healthy, without an error message, exactly when the
  response is 2xx and its body parses as JSON; in every other case (a response that is not
  2xx, a transport failure, a 2xx body that is not JSON) it is unhealthy and carries a
  message that is not empty.
\<close>

theorem checkServerHealth_always_resolves:
  "\<exists>h. checkServerHealth f = Inr h \<and>
       (isHealthy h \<longleftrightarrow> (\<exists>r j. f = FetchResponse r \<and> ok r \<and> body_json r = Inr j)) \<and>
       (isHealthy h \<longrightarrow> error h = None) \<and>
       (\<not> isHealthy h \<longrightarrow> (\<exists>m. error h = Some m \<and> m \<noteq> []))"
proof (cases f)
  case (FetchFailed e)
  then show ?thesis
    by (simp add: checkServerHealth_def checkServerHealth_try_def checkServerHealth_catch_def)
next
  case (FetchResponse r)
  then show ?thesis
    by (cases "body_json r")
      (simp_all add: checkServerHealth_def checkServerHealth_try_def checkServerHealth_catch_def)
qed

theorem checkServerHealth_always_resolves_witness:
  "(\<exists>h. checkServerHealth (FetchFailed (Error ''Network request failed'') :: unit fetch_outcome)
          = Inr h \<and> \<not> isHealthy h \<and> error h = Some ''Network request failed'') \<and>
   (\<exists>h. checkServerHealth (FetchResponse ok_json_response) = Inr h \<and> isHealthy h \<and>
         error h = None)"
proof -
  have "ok ok_json_response \<and> body_json ok_json_response = Inr ()"
    by (simp add: ok_json_response_def ok_def)
  then show ?thesis
    using checkServerHealth_always_resolves
            [of "FetchFailed (Error ''Network request failed'') :: unit fetch_outcome"]
          checkServerHealth_always_resolves [of "FetchResponse ok_json_response"]
    by (auto simp add: checkServerHealth_def checkServerHealth_try_def
        checkServerHealth_catch_def)
qed

section \<open>Properties of the channel\<close>

lemma channel_step_close_unfold:
  assumes "ws ch = Some CONNECTING \<or> ws ch = Some OPEN \<or> ws ch = Some CLOSING"
  shows "channel_step ct su oe (WsClose code) (ch, c) =
           ws_onclose oe code (ch\<lparr>ws := Some CLOSED\<rparr>, c)"
  using assms by simp

lemma connect_creates_socket:
  "\<not> ct (url ch) \<Longrightarrow>
   connect ct oe (ch, c) =
     (ch\<lparr>ws := Some CONNECTING, calls := calls ch @ [NewWebSocket (url ch)]\<rparr>, c)"
  by (simp add: connect_def Let_def)

lemma fresh_session_eq:
  "fresh_session =
     (\<lparr>url = ''wss://host/ws/v1'', ws = Some CONNECTING, isConnected = False,
       reconnectAttempts = 0, messageCount = 0, timers = [],
       calls = [NewWebSocket ''wss://host/ws/v1'']\<rparr>, ())"
  by (simp add: fresh_session_def connectToProcessing_def new_channel_def connect_def Let_def
      never_throws_def)

lemmas channel_eval = ws_onopen_def ws_onmessage_def ws_onerror_def ws_onclose_def connect_def
  ws_close_def call_onStatusUpdate_def call_onError_def maxReconnectAttempts_def Let_def
  never_throws_def silent_def exhausted_def

text \<open>The delays of successive attempts are 2, 4 and 6 seconds, and the fourth abnormal
  closure is reported instead of retried.\<close>

lemma backoff_2s_4s_6s:
  "calls (fst (channel_run never_throws silent silent abnormal_closes fresh_session)) =
     [NewWebSocket ''wss://host/ws/v1'', SetTimeout 2000,
      NewWebSocket ''wss://host/ws/v1'', SetTimeout 4000,
      NewWebSocket ''wss://host/ws/v1'', SetTimeout 6000,
      NewWebSocket ''wss://host/ws/v1'', OnError exhausted]"
  by (simp add: abnormal_closes_def fresh_session_eq channel_eval)

text \<open>
  Claim C4. When the connection closes with a code other than 1000 and the count \<open>n\<close> of
  reconnection attempts is below 3, the channel schedules \<open>connect\<close> after
  \<open>2000 * (n + 1)\<close> milliseconds, counts the attempt, and the timer, when it fires, runs
  \<open>connect\<close>. When the count has reached 3 it calls \<open>onError\<close> with the error of the
  exhausted channel, schedules nothing, and no later event changes the session.
\<close>

theorem channel_abnormal_close:
  assumes "ws ch = Some CONNECTING \<or> ws ch = Some OPEN \<or> ws ch = Some CLOSING"
    and "code \<noteq> 1000"
  shows "channel_step ct su oe (WsClose code) (ch, c) =
           (if reconnectAttempts ch < 3 then
              (ch\<lparr>ws := Some CLOSED, isConnected := False,
                  reconnectAttempts := reconnectAttempts ch + 1,
                  timers := timers ch @ [2000 * (reconnectAttempts ch + 1)],
                  calls := calls ch @ [SetTimeout (2000 * (reconnectAttempts ch + 1))]\<rparr>, c)
            else
              (ch\<lparr>ws := Some CLOSED, isConnected := False,
                  calls := calls ch @ [OnError exhausted]\<rparr>, oe exhausted c)) \<and>
         (reconnectAttempts ch < 3 \<and> timers ch = [] \<longrightarrow>
            channel_step ct su oe TimerConnect (channel_step ct su oe (WsClose code) (ch, c)) =
              connect ct oe
                (ch\<lparr>ws := Some CLOSED, isConnected := False,
                    reconnectAttempts := reconnectAttempts ch + 1,
                    calls := calls ch @ [SetTimeout (2000 * (reconnectAttempts ch + 1))],
                    timers := []\<rparr>, c)) \<and>
         (reconnectAttempts ch \<ge> 3 \<and> timers ch = [] \<longrightarrow>
            (\<forall>ev. channel_step ct su oe ev (channel_step ct su oe (WsClose code) (ch, c)) =
                  channel_step ct su oe (WsClose code) (ch, c)))"
proof -
  have close: "channel_step ct su oe (WsClose code) (ch, c) =
           (if reconnectAttempts ch < 3 then
              (ch\<lparr>ws := Some CLOSED, isConnected := False,
                  reconnectAttempts := reconnectAttempts ch + 1,
                  timers := timers ch @ [2000 * (reconnectAttempts ch + 1)],
                  calls := calls ch @ [SetTimeout (2000 * (reconnectAttempts ch + 1))]\<rparr>, c)
            else
              (ch\<lparr>ws := Some CLOSED, isConnected := False,
                  calls := calls ch @ [OnError exhausted]\<rparr>, oe exhausted c))"
    using assms
    by (simp add: channel_step_close_unfold ws_onclose_def maxReconnectAttempts_def Let_def
        call_onError_def exhausted_def)
  have timer: "channel_step ct su oe TimerConnect (channel_step ct su oe (WsClose code) (ch, c)) =
              connect ct oe
                (ch\<lparr>ws := Some CLOSED, isConnected := False,
                    reconnectAttempts := reconnectAttempts ch + 1,
                    calls := calls ch @ [SetTimeout (2000 * (reconnectAttempts ch + 1))],
                    timers := []\<rparr>, c)"
    if "reconnectAttempts ch < 3" "timers ch = []"
    using that unfolding close by simp
  have dead: "channel_step ct su oe ev (channel_step ct su oe (WsClose code) (ch, c)) =
                  channel_step ct su oe (WsClose code) (ch, c)"
    if "reconnectAttempts ch \<ge> 3" "timers ch = []" for ev
    using that unfolding close by (cases ev) simp_all
  show ?thesis using close timer dead by blast
qed

lemma retried_session_eq:
  "retried_session =
     (\<lparr>url = ''wss://host/ws/v1'', ws = Some CONNECTING, isConnected = False,
       reconnectAttempts = 3, messageCount = 0, timers = [],
       calls = [NewWebSocket ''wss://host/ws/v1'', SetTimeout 2000,
                NewWebSocket ''wss://host/ws/v1'', SetTimeout 4000,
                NewWebSocket ''wss://host/ws/v1'', SetTimeout 6000,
                NewWebSocket ''wss://host/ws/v1'']\<rparr>, ())"
  by (simp add: retried_session_def fresh_session_eq channel_eval)

lemma open_session_eq:
  "open_session =
     (\<lparr>url = ''wss://host/ws/v1'', ws = Some OPEN, isConnected = True,
       reconnectAttempts = 0, messageCount = 0, timers = [],
       calls = [NewWebSocket ''wss://host/ws/v1'']\<rparr>, ())"
  by (simp add: open_session_def fresh_session_eq channel_eval)

lemma dropped_session_eq:
  "dropped_session =
     (\<lparr>url = ''wss://host/ws/v1'', ws = Some CLOSED, isConnected = False,
       reconnectAttempts = 1, messageCount = 0, timers = [2000],
       calls = [NewWebSocket ''wss://host/ws/v1'', SetTimeout 2000]\<rparr>, ())"
  by (simp add: dropped_session_def fresh_session_eq channel_eval)

theorem channel_abnormal_close_witness:
  "channel_step never_throws silent silent (WsClose 1006) fresh_session =
     (\<lparr>url = ''wss://host/ws/v1'', ws = Some CLOSED, isConnected = False, reconnectAttempts = 1,
       messageCount = 0, timers = [2000],
       calls = [NewWebSocket ''wss://host/ws/v1'', SetTimeout 2000]\<rparr>, ()) \<and>
   channel_step never_throws silent silent TimerConnect
       (channel_step never_throws silent silent (WsClose 1006) fresh_session) =
     (\<lparr>url = ''wss://host/ws/v1'', ws = Some CONNECTING, isConnected = False,
       reconnectAttempts = 1, messageCount = 0, timers = [],
       calls = [NewWebSocket ''wss://host/ws/v1'', SetTimeout 2000,
                NewWebSocket ''wss://host/ws/v1'']\<rparr>, ()) \<and>
   calls (fst (channel_step never_throws silent silent (WsClose 1006) retried_session)) =
     calls (fst retried_session) @ [OnError exhausted] \<and>
   timers (fst (channel_step never_throws silent silent (WsClose 1006) retried_session)) = [] \<and>
   (\<forall>ev. channel_step never_throws silent silent ev
           (channel_step never_throws silent silent (WsClose 1006) retried_session) =
         channel_step never_throws silent silent (WsClose 1006) retried_session)"
proof -
  let ?ch = "fst fresh_session" and ?rt = "fst retried_session"
  have pre: "ws ?ch = Some CONNECTING \<or> ws ?ch = Some OPEN \<or> ws ?ch = Some CLOSING"
    "ws ?rt = Some CONNECTING \<or> ws ?rt = Some OPEN \<or> ws ?rt = Some CLOSING"
    "(1006::nat) \<noteq> 1000"
    by (simp_all add: fresh_session_eq retried_session_eq)
  have vals: "reconnectAttempts ?ch < 3 \<and> timers ?ch = []"
    "reconnectAttempts ?rt \<ge> 3 \<and> timers ?rt = []"
    by (simp_all add: fresh_session_eq retried_session_eq)
  have fs: "fresh_session = (?ch, ())" "retried_session = (?rt, ())"
    by (simp_all add: fresh_session_eq retried_session_eq)
  note a = channel_abnormal_close [OF pre(1) pre(3), of never_throws silent silent "()"]
  note b = channel_abnormal_close [OF pre(2) pre(3), of never_throws silent silent "()"]
  from a vals(1) have a1: "channel_step never_throws silent silent (WsClose 1006) fresh_session =
     (\<lparr>url = ''wss://host/ws/v1'', ws = Some CLOSED, isConnected = False, reconnectAttempts = 1,
       messageCount = 0, timers = [2000],
       calls = [NewWebSocket ''wss://host/ws/v1'', SetTimeout 2000]\<rparr>, ())"
    by (simp add: fresh_session_eq)
  from a vals(1) have a2: "channel_step never_throws silent silent TimerConnect
       (channel_step never_throws silent silent (WsClose 1006) fresh_session) =
     (\<lparr>url = ''wss://host/ws/v1'', ws = Some CONNECTING, isConnected = False,
       reconnectAttempts = 1, messageCount = 0, timers = [],
       calls = [NewWebSocket ''wss://host/ws/v1'', SetTimeout 2000,
                NewWebSocket ''wss://host/ws/v1'']\<rparr>, ())"
    by (simp add: fresh_session_eq channel_eval)
  from b vals(2) have b1:
    "calls (fst (channel_step never_throws silent silent (WsClose 1006) retried_session)) =
       calls (fst retried_session) @ [OnError exhausted]"
    "timers (fst (channel_step never_throws silent silent (WsClose 1006) retried_session)) = []"
    by (simp_all add: retried_session_eq)
  from b vals(2) have b2: "\<forall>ev. channel_step never_throws silent silent ev
           (channel_step never_throws silent silent (WsClose 1006) retried_session) =
         channel_step never_throws silent silent (WsClose 1006) retried_session"
    unfolding fs(2) [symmetric] by blast
  show ?thesis using a1 a2 b1 b2 by blast
qed

text \<open>
  Claim C5. A frame whose status is \<open>done\<close>, \<open>timeout\<close> or \<open>error\<close>, received on the open
  socket, is first handed to \<open>onStatusUpdate\<close>; then the channel calls
  \<open>ws.close(1000, ...)\<close>, and no call lies between the two. The close event with the code
  1000 that follows schedules no reconnection and reports no error, and a frame arriving
  after the call of \<open>close\<close> is not processed.
\<close>

theorem channel_terminal_frame:
  assumes "ws ch = Some OPEN"
    and "status data = ''done'' \<or> status data = ''timeout'' \<or> status data = ''error''"
  shows "channel_step ct su oe (WsMessage (Some data)) (ch, c) =
           (ch\<lparr>messageCount := messageCount ch + 1, ws := Some CLOSING,
               calls := calls ch @ [StatusUpdate data, WsCloseCall 1000 ''Processing complete'']\<rparr>,
            su data c) \<and>
         channel_step ct su oe (WsClose 1000)
             (channel_step ct su oe (WsMessage (Some data)) (ch, c)) =
           (ch\<lparr>messageCount := messageCount ch + 1, ws := Some CLOSED, isConnected := False,
               calls := calls ch @ [StatusUpdate data, WsCloseCall 1000 ''Processing complete'']\<rparr>,
            su data c) \<and>
         (\<forall>m. channel_step ct su oe (WsMessage m)
                (channel_step ct su oe (WsMessage (Some data)) (ch, c)) =
              channel_step ct su oe (WsMessage (Some data)) (ch, c))"
proof -
  have msg: "channel_step ct su oe (WsMessage (Some data)) (ch, c) =
           (ch\<lparr>messageCount := messageCount ch + 1, ws := Some CLOSING,
               calls := calls ch @ [StatusUpdate data, WsCloseCall 1000 ''Processing complete'']\<rparr>,
            su data c)"
    using assms
    by (auto simp add: ws_onmessage_def call_onStatusUpdate_def ws_close_def Let_def)
  show ?thesis unfolding msg by (simp add: ws_onclose_def Let_def)
qed

lemma finished_session_eq:
  "finished_session =
     (\<lparr>url = ''wss://host/ws/v1'', ws = Some CLOSING, isConnected = True,
       reconnectAttempts = 0, messageCount = 1, timers = [],
       calls = [NewWebSocket ''wss://host/ws/v1'', StatusUpdate (frame ''done''),
                WsCloseCall 1000 ''Processing complete'']\<rparr>, ())"
  by (simp add: finished_session_def fresh_session_eq channel_eval frame_def)

theorem channel_terminal_frame_witness:
  "channel_step never_throws silent silent (WsMessage (Some (frame ''done''))) open_session =
     finished_session \<and>
   channel_step never_throws silent silent (WsClose 1000) finished_session =
     (\<lparr>url = ''wss://host/ws/v1'', ws = Some CLOSED, isConnected = False,
       reconnectAttempts = 0, messageCount = 1, timers = [],
       calls = [NewWebSocket ''wss://host/ws/v1'', StatusUpdate (frame ''done''),
                WsCloseCall 1000 ''Processing complete'']\<rparr>, ())"
proof -
  let ?ch = "fst open_session"
  have pre: "ws ?ch = Some OPEN"
    "status (frame ''done'') = ''done'' \<or> status (frame ''done'') = ''timeout''
       \<or> status (frame ''done'') = ''error''"
    by (simp_all add: open_session_eq frame_def)
  have fs: "open_session = (?ch, ())"
    by (simp add: open_session_eq)
  note t = channel_terminal_frame [OF pre, of never_throws silent silent "()",
      unfolded fs [symmetric]]
  from t [THEN conjunct1] have c1:
    "channel_step never_throws silent silent (WsMessage (Some (frame ''done''))) open_session =
       finished_session"
    by (simp del: channel_step.simps add: open_session_eq finished_session_eq silent_def)
  from t [THEN conjunct2, THEN conjunct1] have c2:
    "channel_step never_throws silent silent (WsClose 1000)
       (channel_step never_throws silent silent (WsMessage (Some (frame ''done'')))
          open_session) =
     (\<lparr>url = ''wss://host/ws/v1'', ws = Some CLOSED, isConnected = False,
       reconnectAttempts = 0, messageCount = 1, timers = [],
       calls = [NewWebSocket ''wss://host/ws/v1'', StatusUpdate (frame ''done''),
                WsCloseCall 1000 ''Processing complete'']\<rparr>, ())"
    by (simp del: channel_step.simps add: open_session_eq silent_def)
  show ?thesis using c1 c2 [unfolded c1] by blast
qed

text \<open>
  Claim C3, as stated: the teardown function suppresses a reconnection that is scheduled
  and has not run yet. After an abnormal closure a reconnection is pending and the channel
  is not connected; there the teardown function changes nothing, the timer stays
  scheduled, and when it fires \<open>connect\<close> creates a new socket.
\<close>

theorem teardown_keeps_pending_reconnection:
  "timers (fst dropped_session) = [2000] \<and>
   teardown (fst dropped_session) = fst dropped_session \<and>
   channel_step never_throws silent silent TimerConnect (teardown (fst dropped_session), ()) =
     (\<lparr>url = ''wss://host/ws/v1'', ws = Some CONNECTING, isConnected = False,
       reconnectAttempts = 1, messageCount = 0, timers = [],
       calls = [NewWebSocket ''wss://host/ws/v1'', SetTimeout 2000,
                NewWebSocket ''wss://host/ws/v1'']\<rparr>, ())"
  by (simp add: dropped_session_eq teardown_def channel_eval)

text \<open>
  Claim C3, amended. When the channel is open (the socket is open and \<open>isConnected\<close> is
  set) the teardown function calls \<open>ws.close(1000, ...)\<close>, and the close event with the
  code 1000 that follows schedules no reconnection. When the channel is not connected,
  which includes the time a reconnection is scheduled and has not run, it does nothing,
  so that reconnection stays scheduled. On a socket that is closing or closed, as after a
  terminal frame, it changes neither the socket nor the flags, counters and timers: at
  most it repeats the call of \<open>close\<close>, which such a socket ignores.
\<close>

theorem teardown_effect:
  "(ws ch = Some OPEN \<and> isConnected ch \<longrightarrow>
      teardown ch = ch\<lparr>ws := Some CLOSING,
                       calls := calls ch @ [WsCloseCall 1000 ''Manual disconnect'']\<rparr> \<and>
      channel_step ct su oe (WsClose 1000) (teardown ch, c) =
        (ch\<lparr>ws := Some CLOSED,
            calls := calls ch @ [WsCloseCall 1000 ''Manual disconnect''],
            isConnected := False\<rparr>, c)) \<and>
   (\<not> isConnected ch \<longrightarrow> teardown ch = ch) \<and>
   (ws ch = Some CLOSING \<or> ws ch = Some CLOSED \<longrightarrow>
      teardown ch = ch \<or>
      teardown ch = ch\<lparr>calls := calls ch @ [WsCloseCall 1000 ''Manual disconnect'']\<rparr>)"
proof -
  have a: "teardown ch = ch\<lparr>ws := Some CLOSING,
                       calls := calls ch @ [WsCloseCall 1000 ''Manual disconnect'']\<rparr>"
    if "ws ch = Some OPEN" "isConnected ch"
    using that by (simp add: teardown_def ws_close_def)
  have b: "channel_step ct su oe (WsClose 1000) (teardown ch, c) =
        (ch\<lparr>ws := Some CLOSED,
            calls := calls ch @ [WsCloseCall 1000 ''Manual disconnect''],
            isConnected := False\<rparr>, c)"
    if "ws ch = Some OPEN" "isConnected ch"
    unfolding a [OF that] by (simp add: ws_onclose_def Let_def)
  have c: "teardown ch = ch" if "\<not> isConnected ch"
    using that by (simp add: teardown_def)
  have d: "teardown ch = ch \<or>
      teardown ch = ch\<lparr>calls := calls ch @ [WsCloseCall 1000 ''Manual disconnect'']\<rparr>"
    if "ws ch = Some CLOSING \<or> ws ch = Some CLOSED"
    using that by (auto simp add: teardown_def ws_close_def)
  show ?thesis using a b c d by blast
qed

theorem teardown_effect_witness:
  "teardown (fst open_session) =
     \<lparr>url = ''wss://host/ws/v1'', ws = Some CLOSING, isConnected = True,
      reconnectAttempts = 0, messageCount = 0, timers = [],
      calls = [NewWebSocket ''wss://host/ws/v1'', WsCloseCall 1000 ''Manual disconnect'']\<rparr> \<and>
   timers (fst (channel_step never_throws silent silent (WsClose 1000)
                  (teardown (fst open_session), ()))) = [] \<and>
   teardown (fst dropped_session) = fst dropped_session \<and>
   timers (teardown (fst dropped_session)) = [2000] \<and>
   ws (teardown (fst finished_session)) = Some CLOSING \<and>
   timers (teardown (fst finished_session)) = []"
proof -
  have o: "ws (fst open_session) = Some OPEN \<and> isConnected (fst open_session)"
    by (simp add: open_session_eq)
  have d: "\<not> isConnected (fst dropped_session)"
    by (simp add: dropped_session_eq)
  have f: "ws (fst finished_session) = Some CLOSING \<or> ws (fst finished_session) = Some CLOSED"
    by (simp add: finished_session_eq)
  note t = teardown_effect [of "fst open_session" never_throws silent silent "()",
      THEN conjunct1, THEN mp, OF o]
  from t [THEN conjunct1] have 1: "teardown (fst open_session) =
     \<lparr>url = ''wss://host/ws/v1'', ws = Some CLOSING, isConnected = True,
      reconnectAttempts = 0, messageCount = 0, timers = [],
      calls = [NewWebSocket ''wss://host/ws/v1'', WsCloseCall 1000 ''Manual disconnect'']\<rparr>"
    by (simp add: open_session_eq)
  from t [THEN conjunct2] have close1: "timers (fst (channel_step never_throws silent silent
                  (WsClose 1000) (teardown (fst open_session), ()))) = []"
    by (simp del: channel_step.simps add: open_session_eq)
  from d teardown_effect [of "fst dropped_session" never_throws silent silent "()"]
  have 2: "teardown (fst dropped_session) = fst dropped_session"
    by blast
  then have 3: "timers (teardown (fst dropped_session)) = [2000]"
    by (simp add: dropped_session_eq)
  from f teardown_effect [of "fst finished_session" never_throws silent silent "()"]
  have "teardown (fst finished_session) = fst finished_session \<or>
      teardown (fst finished_session) =
        (fst finished_session)\<lparr>calls := calls (fst finished_session)
                                   @ [WsCloseCall 1000 ''Manual disconnect'']\<rparr>"
    by blast
  then have 4: "ws (teardown (fst finished_session)) = Some CLOSING \<and>
      timers (teardown (fst finished_session)) = []"
    by (auto simp add: finished_session_eq)
  show ?thesis using 1 close1 2 3 4 by blast
qed

section \<open>Properties of the orchestrator\<close>

subsection \<open>What every step keeps\<close>

lemma channel_step_keeps:
  assumes su: "\<And>d c. P c \<Longrightarrow> P (su d c)" and oe: "\<And>e c. P c \<Longrightarrow> P (oe e c)" and c: "P c"
  shows "P (snd (channel_step ct su oe ev (ch, c)))"
proof (cases ev)
  case WsOpen
  then show ?thesis using c by (simp add: ws_onopen_def)
next
  case (WsMessage parsed)
  then show ?thesis using su oe c
    by (cases parsed) (simp_all add: ws_onmessage_def call_onError_def call_onStatusUpdate_def Let_def)
next
  case WsError
  then show ?thesis using oe c by (simp add: ws_onerror_def call_onError_def)
next
  case (WsClose code)
  then show ?thesis using oe c by (simp add: ws_onclose_def call_onError_def Let_def)
next
  case TimerConnect
  then show ?thesis using oe c
    by (cases "timers ch") (simp_all add: connect_def call_onError_def Let_def)
qed

lemma connectToProcessing_keeps:
  assumes "\<And>e c. P c \<Longrightarrow> P (oe e c)" and "P c"
  shows "P (snd (connectToProcessing ct this v su oe c))"
  using assms by (simp add: connectToProcessing_def connect_def call_onError_def Let_def)

lemma errorCallback_eq: "reject e (clearTimeout w) = errorCallback e w"
  by (simp add: errorCallback_def)

lemma processVideo_catch_keeps:
  assumes "kept P rnd" and "P (snd s)"
  shows "P (snd (processVideo_catch e s))"
proof -
  obtain cho w where s: "s = (cho, w)" by (cases s)
  from assms(1) have "\<And>e w. P w \<Longrightarrow> P (errorCallback e w)"
    by (simp add: kept_def)
  with assms(2) s show ?thesis
    by (simp add: processVideo_catch_def Let_def errorCallback_eq)
qed

lemma processVideo_resume_keeps:
  assumes k: "kept P (random pf)" and p: "P (snd s)"
  shows "P (snd (processVideo_resume pf this r s))"
proof -
  obtain cho w where s: "s = (cho, w)" by (cases s)
  show ?thesis
  proof (cases r)
    case (Inl e)
    then show ?thesis
      using processVideo_catch_keeps [OF k p] s by (simp add: processVideo_resume_def)
  next
    case (Inr u)
    show ?thesis
    proof (cases "upload_status u = Some ''received''")
      case False
      then show ?thesis
        using processVideo_catch_keeps [OF k p] s Inr by (simp add: processVideo_resume_def)
    next
      case True
      let ?w2 = "user_onStatusUpdate ''Video uploaded, starting analysis...'' (user_onProgress 30 w)"
      let ?r = "connectToProcessing (ctor_throws pf) this (template (video_id u))
                  (statusCallback (random pf)) errorCallback ?w2"
      have "P ?w2" using k p s by (simp add: kept_def)
      moreover have "\<And>e c. P c \<Longrightarrow> P (errorCallback e c)" using k by (simp add: kept_def)
      ultimately have "P (snd ?r)" by (rule connectToProcessing_keeps [rotated])
      then have "P ((snd ?r)\<lparr>wsCleanup := True\<rparr>)" using k by (simp add: kept_def)
      then show ?thesis using s Inr True
        by (simp add: processVideo_resume_def Let_def split_beta)
    qed
  qed
qed

lemma step_keeps:
  assumes k: "kept P (random pf)" and p: "P (snd s)"
  shows "P (snd (step pf this ev s))"
proof -
  obtain cho w where s: "s = (cho, w)" by (cases s)
  show ?thesis
  proof (cases ev)
    case (FetchSettled f)
    have a: "P (w\<lparr>uploadPending := False\<rparr>)" using k p s by (simp add: kept_def)
    then have b: "P (w\<lparr>uploadPending := False, racePending := False\<rparr>)"
      using k by (simp add: kept_def)
    have "P (snd (processVideo_resume pf this (uploadVideo f)
                (cho, w\<lparr>uploadPending := False, racePending := False\<rparr>)))"
      by (rule processVideo_resume_keeps [OF k]) (simp add: b)
    then show ?thesis using FetchSettled s a p by (simp add: Let_def)
  next
    case UploadTimerFired
    have a: "P (w\<lparr>uploadTimer := Fired\<rparr>)" using k p s by (simp add: kept_def)
    then have b: "P (w\<lparr>uploadTimer := Fired, racePending := False\<rparr>)"
      using k by (simp add: kept_def)
    have "P (snd (processVideo_resume pf this (Inl (Error ''Upload timeout after 2 minutes''))
                (cho, w\<lparr>uploadTimer := Fired, racePending := False\<rparr>)))"
      by (rule processVideo_resume_keeps [OF k]) (simp add: b)
    then show ?thesis using UploadTimerFired s a p
      by (simp add: Let_def split: timer.splits)
  next
    case DeadlineFired
    from k have d: "\<And>e w d. P w \<Longrightarrow> timeoutId w = Armed d
                      \<Longrightarrow> P (reject e (w\<lparr>timeoutId := Fired\<rparr>))"
      by (simp add: kept_def)
    show ?thesis using DeadlineFired s p d by (cases "timeoutId w") simp_all
  next
    case (Socket e)
    show ?thesis
    proof (cases cho)
      case None
      then show ?thesis using Socket s p by simp
    next
      case (Some ch)
      have "P (snd (channel_step (ctor_throws pf) (statusCallback (random pf)) errorCallback
                  e (ch, w)))"
      proof (rule channel_step_keeps [where P = P])
        show "P (statusCallback (random pf) d c)" if "P c" for d c
          using k that by (simp add: kept_def)
        show "P (errorCallback e c)" if "P c" for e c
          using k that by (simp add: kept_def)
        show "P w" using p s by simp
      qed
      then show ?thesis using Socket s Some by (simp add: split_beta)
    qed
  qed
qed

lemma run_keeps:
  assumes "kept P (random pf)" and "P (snd s)"
  shows "P (snd (run pf this es s))"
  using assms(2) by (induction es arbitrary: s) (simp_all add: step_keeps [OF assms(1)])

subsection \<open>The invariants\<close>

lemma settlements_append: "settlements (xs @ ys) = settlements xs @ settlements ys"
  by (induction xs rule: settlements.induct) simp_all

lemmas workflow_eval = resolve_def reject_def clearTimeout_def user_onProgress_def
  user_onStatusUpdate_def statusCallback_def errorCallback_def Let_def

lemma statusCallback_settled_once:
  assumes "settled_once w"
  shows "settled_once (statusCallback rnd st w)"
proof -
  consider "status st = ''processing''" | "status st = ''done''"
    | "status st \<noteq> ''processing''" "status st \<noteq> ''done''" by blast
  then show ?thesis
  proof cases
    case 1
    with assms show ?thesis
      by (simp add: settled_once_def statusCallback_def user_onProgress_def
          user_onStatusUpdate_def Let_def settlements_append)
  next
    case 2
    with assms show ?thesis
      by (cases "timeoutId w")
        (simp_all add: settled_once_def workflow_eval settlements_append)
  next
    case 3
    with assms show ?thesis
      by (cases "timeoutId w")
        (simp_all add: settled_once_def workflow_eval settlements_append)
  qed
qed

lemma errorCallback_settled_once:
  "settled_once w \<Longrightarrow> settled_once (errorCallback e w)"
  by (cases "timeoutId w") (simp_all add: settled_once_def workflow_eval settlements_append)

lemma kept_settled_once: "kept settled_once rnd"
  unfolding kept_def
proof (intro conjI allI impI)
  fix st w assume "settled_once w"
  then show "settled_once (statusCallback rnd st w)" by (rule statusCallback_settled_once)
next
  fix e w assume "settled_once w"
  then show "settled_once (errorCallback e w)" by (rule errorCallback_settled_once)
next
  fix e w d assume "settled_once w" "timeoutId w = Armed d"
  then show "settled_once (reject e (w\<lparr>timeoutId := Fired\<rparr>))"
    by (simp add: settled_once_def reject_def settlements_append)
qed (simp_all add: settled_once_def user_onProgress_def user_onStatusUpdate_def
      settlements_append)






lemma kept_settled:
  assumes "p \<noteq> Pending"
  shows "kept (\<lambda>w. promise w = p) rnd"
  unfolding kept_def
proof (intro conjI allI impI)
  fix st and w :: workflow assume "promise w = p"
  with assms show "promise (statusCallback rnd st w) = p"
    by (cases "timeoutId w") (simp_all add: workflow_eval)
next
  fix e and w :: workflow assume "promise w = p"
  with assms show "promise (errorCallback e w) = p"
    by (cases "timeoutId w") (simp_all add: workflow_eval)
next
  fix e d and w :: workflow assume "promise w = p" "timeoutId w = Armed d"
  with assms show "promise (reject e (w\<lparr>timeoutId := Fired\<rparr>)) = p"
    by (simp add: reject_def)
qed (simp_all add: user_onProgress_def user_onStatusUpdate_def)

lemma start_settled_once: "settled_once (snd processVideo_start)"
  by (simp add: processVideo_start_def settled_once_def user_onProgress_def
      user_onStatusUpdate_def Let_def)


subsection \<open>The concrete runs\<close>

lemma run_snoc: "run pf this (es @ [e]) s = step pf this e (run pf this es s)"
  by (induction es arbitrary: s) simp_all

lemma processVideo_start_eq:
  "processVideo_start =
     (None, \<lparr>promise = Pending, timeoutId = Armed 180000, uploadTimer = Armed 120000,
             uploadPending = True, racePending = True, wsCleanup = False, randomCalls = 0,
             trace = [StatusText ''Uploading video...'', Progress 10]\<rparr>)"
  by (simp add: processVideo_start_def user_onProgress_def user_onStatusUpdate_def Let_def)

lemma upload_received:
  "uploadVideo (FetchResponse received_response) =
     Inr \<lparr>upload_status = Some ''received'', video_id = Some ''v1''\<rparr>"
  by (simp add: uploadVideo_def uploadVideo_try_def received_response_def ok_def)

lemma resume_received:
  "processVideo_resume device apiService
      (Inr \<lparr>upload_status = Some ''received'', video_id = Some ''v1''\<rparr>)
      (None, \<lparr>promise = Pending, timeoutId = Armed 180000, uploadTimer = Armed 120000,
             uploadPending = False, racePending = False, wsCleanup = False, randomCalls = 0,
             trace = [StatusText ''Uploading video...'', Progress 10]\<rparr>) = connected"
  by (simp add: processVideo_resume_def connectToProcessing_def new_channel_def connect_def
      device_def apiService_def never_throws_def template_def connected_def
      user_onProgress_def user_onStatusUpdate_def Let_def)

lemma step_received:
  "step device apiService (FetchSettled (FetchResponse received_response)) processVideo_start
     = connected"
  by (simp add: processVideo_start_eq upload_received resume_received)

lemma step_open: "step device apiService (Socket WsOpen) connected = opened"
  by (simp add: connected_def opened_def ws_onopen_def)

lemma step_deadline: "step device apiService DeadlineFired opened = timed_out"
  by (simp add: opened_def timed_out_def reject_def)

lemma run_until_deadline: "run device apiService until_deadline processVideo_start = timed_out"
  by (simp add: until_deadline_def step_received step_open step_deadline)

lemma statusCallback_processing:
  "statusCallback rnd (frame ''processing'') w =
     w\<lparr>randomCalls := randomCalls w + 1,
       trace := trace w @ [Progress (min 90 (40 + rnd (randomCalls w) * 30)),
                           StatusText ''Processing landmarks and analyzing gestures...'']\<rparr>"
  by (simp add: statusCallback_def frame_def user_onProgress_def user_onStatusUpdate_def Let_def)

lemma message_processing:
  "ws ch = Some OPEN \<Longrightarrow>
   channel_step ct (statusCallback rnd) oe (WsMessage (Some (frame ''processing''))) (ch, w) =
     (ch\<lparr>messageCount := messageCount ch + 1,
         calls := calls ch @ [StatusUpdate (frame ''processing'')]\<rparr>,
      statusCallback rnd (frame ''processing'') w)"
  by (simp add: ws_onmessage_def call_onStatusUpdate_def Let_def frame_def)

text \<open>
  Claim C1. When the overall timer fires before the workflow has settled, the workflow
  fails with the error of the overall timeout, and the open channel is torn down, so that
  no status or progress callback fires afterwards.

  The code on an accepted upload whose socket has opened, when the overall timer fires and
  the server then sends one more \<open>processing\<close> frame: the promise is rejected with the
  error of the overall timeout, but the handler of the timer only rejects. The socket is
  still open, \<open>ws.close\<close> has not been called, and the frame makes the workflow call
  \<open>onProgress\<close> and \<open>onStatusUpdate\<close> after the rejection.
\<close>

theorem deadline_leaves_channel_open:
  "promise (snd (run device apiService until_deadline processVideo_start)) =
     Rejected (Error ''Overall processing timeout (3 minutes)'') \<and>
   map_option ws (fst (run device apiService until_deadline processVideo_start)) =
     Some (Some OPEN) \<and>
   map_option calls (fst (run device apiService until_deadline processVideo_start)) =
     Some [NewWebSocket ''wss://boulevard-thorough-lives-cuts.trycloudflare.com/ws/v1''] \<and>
   trace (snd (run device apiService past_deadline processVideo_start)) =
     trace (snd (run device apiService until_deadline processVideo_start)) @
       [Progress 55, StatusText ''Processing landmarks and analyzing gestures...'']"
proof -
  have "run device apiService past_deadline processVideo_start =
          step device apiService (Socket (WsMessage (Some (frame ''processing'')))) timed_out"
    by (simp only: past_deadline_def run_snoc run_until_deadline)
  also have "\<dots> =
          (Some \<lparr>url = ''wss://boulevard-thorough-lives-cuts.trycloudflare.com/ws/v1'',
            ws = Some OPEN, isConnected = True, reconnectAttempts = 0,
            messageCount = 1, timers = [],
            calls = [NewWebSocket
                       ''wss://boulevard-thorough-lives-cuts.trycloudflare.com/ws/v1'',
                     StatusUpdate (frame ''processing'')]\<rparr>,
           statusCallback (random device) (frame ''processing'') (snd timed_out))"
    by (simp add: timed_out_def message_processing del: channel_step.simps)
  finally have "trace (snd (run device apiService past_deadline processVideo_start)) =
      trace (statusCallback (random device) (frame ''processing'') (snd timed_out))"
    by simp
  also have "\<dots> = trace (snd timed_out) @
       [Progress 55, StatusText ''Processing landmarks and analyzing gestures...'']"
    by (simp add: statusCallback_processing device_def timed_out_def)
  finally show ?thesis
    by (simp add: run_until_deadline) (simp add: timed_out_def)
qed

subsection \<open>Settlement\<close>

text \<open>
  Claim C2. Whatever events occur, in whatever order, the promise of an invocation settles
  exactly once. At every point of every run at most one settlement has been observed, and
  it is the state of the promise; a promise that is fulfilled holds a frame \<open>done\<close>.
  While the promise is pending the overall timer is armed, and its firing rejects the
  promise, so the promise does not stay pending. Once it is settled, no later event
  changes it or adds a settlement.
\<close>

theorem processVideo_settles_once:
  assumes "run pf this es processVideo_start = (cho, w)"
  shows "length (settlements (trace w)) \<le> 1 \<and>
         settlements (trace w) = (if promise w = Pending then [] else [promise w]) \<and>
         (promise w = Pending \<longrightarrow>
            (\<exists>d. timeoutId w = Armed d) \<and>
            promise (snd (step pf this DeadlineFired (cho, w))) =
              Rejected (Error ''Overall processing timeout (3 minutes)'')) \<and>
         (\<forall>v. promise w = Fulfilled v \<longrightarrow> status v = ''done'') \<and>
         (promise w \<noteq> Pending \<longrightarrow>
            (\<forall>later. promise (snd (run pf this later (cho, w))) = promise w \<and>
                     settlements (trace (snd (run pf this later (cho, w)))) = [promise w]))"
proof -
  have "settled_once (snd (run pf this es processVideo_start))"
    by (rule run_keeps [OF kept_settled_once start_settled_once])
  with assms have inv: "settled_once w" by simp
  then have once: "settlements (trace w) = (if promise w = Pending then [] else [promise w])"
    and armed: "promise w = Pending \<longrightarrow> (\<exists>d. timeoutId w = Armed d)"
    and fin: "\<forall>v. promise w = Fulfilled v \<longrightarrow> status v = ''done''"
    by (cases "timeoutId w"; cases "promise w"; simp add: settled_once_def)+
  from once have le: "length (settlements (trace w)) \<le> 1" by simp
  have fire: "promise (snd (step pf this DeadlineFired (cho, w))) =
              Rejected (Error ''Overall processing timeout (3 minutes)'')"
    if "promise w = Pending"
  proof -
    from armed that obtain d where "timeoutId w = Armed d" by blast
    with that show ?thesis by (simp add: reject_def)
  qed
  have stable: "promise (snd (run pf this later (cho, w))) = promise w \<and>
                settlements (trace (snd (run pf this later (cho, w)))) = [promise w]"
    if "promise w \<noteq> Pending" for later
  proof -
    have p: "promise (snd (run pf this later (cho, w))) = promise w"
      by (rule run_keeps [OF kept_settled [OF that]]) simp
    have "settled_once (snd (run pf this later (cho, w)))"
      by (rule run_keeps [OF kept_settled_once]) (simp add: inv)
    with p that show ?thesis by (simp add: settled_once_def)
  qed
  show ?thesis using le once armed fire fin stable by blast
qed

lemma step_processing:
  "step device apiService (Socket (WsMessage (Some (frame ''processing'')))) opened =
     (Some \<lparr>url = ''wss://boulevard-thorough-lives-cuts.trycloudflare.com/ws/v1'',
            ws = Some OPEN, isConnected = True, reconnectAttempts = 0,
            messageCount = 1, timers = [],
            calls = [NewWebSocket
                       ''wss://boulevard-thorough-lives-cuts.trycloudflare.com/ws/v1'',
                     StatusUpdate (frame ''processing'')]\<rparr>,
      \<lparr>promise = Pending, timeoutId = Armed 180000, uploadTimer = Armed 120000,
       uploadPending = False, racePending = False, wsCleanup = True, randomCalls = 1,
       trace = [StatusText ''Uploading video...'', Progress 10, Progress 30,
                StatusText ''Video uploaded, starting analysis...'', Progress 55,
                StatusText ''Processing landmarks and analyzing gestures...'']\<rparr>)"
  by (simp add: opened_def message_processing statusCallback_processing device_def
      del: channel_step.simps)

lemma statusCallback_done:
  "statusCallback rnd (frame ''done'') w =
     resolve (frame ''done'')
       (user_onStatusUpdate ''Analysis complete!'' (user_onProgress 100 (clearTimeout w)))"
  by (simp add: statusCallback_def frame_def Let_def)

lemma step_done:
  assumes "ws ch = Some OPEN" and "promise w = Pending"
  shows "promise (snd (step pf this (Socket (WsMessage (Some (frame ''done'')))) (Some ch, w))) =
           Fulfilled (frame ''done'')"
  using assms
  by (cases "timeoutId w")
    (simp_all add: ws_onmessage_def call_onStatusUpdate_def Let_def statusCallback_done
      resolve_def user_onProgress_def user_onStatusUpdate_def clearTimeout_def split_beta)

lemma run_successful:
  "promise (snd (run device apiService successful_run processVideo_start)) =
     Fulfilled (frame ''done'')"
  by (simp add: successful_run_def step_received step_open step_processing step_done
      del: step.simps)


theorem processVideo_settles_once_witness:
  "settlements (trace (snd (run device apiService successful_run processVideo_start))) =
     [Fulfilled (frame ''done'')] \<and>
   (\<forall>later. promise (snd (run device apiService later
                (run device apiService successful_run processVideo_start))) =
            Fulfilled (frame ''done'')) \<and>
   promise (snd processVideo_start) = Pending \<and>
   promise (snd (step device apiService DeadlineFired processVideo_start)) =
     Rejected (Error ''Overall processing timeout (3 minutes)'')"
proof -
  let ?r = "run device apiService successful_run processVideo_start"
  have r: "run device apiService successful_run processVideo_start = (fst ?r, snd ?r)"
    by simp
  note a = processVideo_settles_once [OF r]
  have p: "promise (snd ?r) = Fulfilled (frame ''done'')" by (rule run_successful)
  from a p have 1: "settlements (trace (snd ?r)) = [Fulfilled (frame ''done'')]"
    by simp
  from a p have 2: "\<forall>later. promise (snd (run device apiService later ?r)) =
                      Fulfilled (frame ''done'')"
    by simp
  have s: "run device apiService [] processVideo_start =
             (fst processVideo_start, snd processVideo_start)"
    by simp
  note b = processVideo_settles_once [OF s]
  have q: "promise (snd processVideo_start) = Pending"
    by (simp add: processVideo_start_eq)
  from b q have 3: "promise (snd (step device apiService DeadlineFired processVideo_start)) =
     Rejected (Error ''Overall processing timeout (3 minutes)'')"
    by (simp del: step.simps)
  show ?thesis using 1 2 q 3 by blast
qed

subsection \<open>The step that rejects the workflow\<close>






















subsection \<open>The limits in use\<close>

lemma scheduled_append: "scheduled (xs @ ys) = scheduled xs + scheduled ys"
  by (induction xs rule: scheduled.induct) simp_all

lemma channel_step_attempts:
  assumes "reconnectAttempts ch \<le> 3"
  shows "reconnectAttempts (fst (channel_step ct su oe ev (ch, c))) \<le> 3"
proof (cases ev)
  case WsOpen
  then show ?thesis using assms by (simp add: ws_onopen_def)
next
  case (WsMessage parsed)
  then show ?thesis using assms
    by (cases parsed)
      (simp_all add: ws_onmessage_def call_onError_def call_onStatusUpdate_def ws_close_def
        Let_def)
next
  case WsError
  then show ?thesis using assms by (simp add: ws_onerror_def call_onError_def)
next
  case (WsClose code)
  then show ?thesis using assms
    by (simp add: ws_onclose_def call_onError_def maxReconnectAttempts_def Let_def)
next
  case TimerConnect
  then show ?thesis using assms
    by (cases "timers ch") (simp_all add: connect_def call_onError_def Let_def)
qed

lemma channel_run_attempts:
  "reconnectAttempts (fst s) \<le> 3 \<Longrightarrow>
   reconnectAttempts (fst (channel_run ct su oe es s)) \<le> 3"
proof (induction es arbitrary: s)
  case Nil
  then show ?case by simp
next
  case (Cons ev es)
  obtain ch c where s: "s = (ch, c)" by (cases s)
  from Cons.prems s have "reconnectAttempts (fst (channel_step ct su oe ev s)) \<le> 3"
    by (simp add: channel_step_attempts del: channel_step.simps)
  from Cons.IH [OF this] show ?case by simp
qed

lemma channel_step_budget:
  assumes "ev \<noteq> WsOpen"
  shows "scheduled (calls (fst (channel_step ct su oe ev (ch, c)))) + reconnectAttempts ch =
         scheduled (calls ch) + reconnectAttempts (fst (channel_step ct su oe ev (ch, c)))"
proof (cases ev)
  case WsOpen
  with assms show ?thesis by simp
next
  case (WsMessage parsed)
  then show ?thesis
    by (cases parsed; cases "ws ch"; simp add: ws_onmessage_def call_onError_def
        call_onStatusUpdate_def ws_close_def Let_def scheduled_append)
next
  case WsError
  then show ?thesis by (simp add: ws_onerror_def call_onError_def scheduled_append)
next
  case (WsClose code)
  then show ?thesis
    by (simp add: ws_onclose_def call_onError_def Let_def scheduled_append)
next
  case TimerConnect
  then show ?thesis
    by (cases "timers ch") (simp_all add: connect_def call_onError_def Let_def scheduled_append)
qed

lemma channel_run_budget:
  "WsOpen \<notin> set es \<Longrightarrow>
   scheduled (calls (fst (channel_run ct su oe es s))) + reconnectAttempts (fst s) =
   scheduled (calls (fst s)) + reconnectAttempts (fst (channel_run ct su oe es s))"
proof (induction es arbitrary: s)
  case Nil
  then show ?case by simp
next
  case (Cons ev es)
  obtain ch c where s: "s = (ch, c)" by (cases s)
  let ?s1 = "channel_step ct su oe ev s"
  from Cons.prems have "ev \<noteq> WsOpen" and rest: "WsOpen \<notin> set es" by auto
  from channel_step_budget [OF this(1), of ct su oe ch c] s
  have a: "scheduled (calls (fst ?s1)) + reconnectAttempts (fst s) =
           scheduled (calls (fst s)) + reconnectAttempts (fst ?s1)"
    by (simp del: channel_step.simps)
  from Cons.IH [OF rest, of ?s1]
  have b: "scheduled (calls (fst (channel_run ct su oe es ?s1))) + reconnectAttempts (fst ?s1) =
           scheduled (calls (fst ?s1)) + reconnectAttempts (fst (channel_run ct su oe es ?s1))" .
  from a b show ?case by (simp del: channel_step.simps)
qed

lemma connectToProcessing_attempts:
  "reconnectAttempts (fst (connectToProcessing ct svc v su oe c)) = 0"
  by (simp add: connectToProcessing_def connect_def new_channel_def call_onError_def Let_def)

lemma reopening_reconnects:
  "scheduled (calls (fst (channel_run never_throws silent silent reopening_run fresh_session)))
     = 5"
  by (simp add: reopening_run_def fresh_session_eq channel_eval)

lemma start_timers_fire:
  "promise (snd (step pf this DeadlineFired processVideo_start)) =
     Rejected (Error ''Overall processing timeout (3 minutes)'') \<and>
   promise (snd (step pf this UploadTimerFired processVideo_start)) =
     Rejected (Error ''Upload timeout after 2 minutes'')"
  by (simp add: processVideo_start_eq reject_def processVideo_resume_def processVideo_catch_def
      clearTimeout_def Let_def)

text \<open>
  Claim C9, as stated: the configured \<open>UPLOAD_TIMEOUT\<close> bounds the upload race and the
  configured \<open>MAX_RETRY_ATTEMPTS\<close> bounds the reconnections. The timer of the race is not
  set to the \<open>UPLOAD_TIMEOUT\<close> of either configuration, and with the production
  configuration, which allows 5 attempts, the channel that has made 3 attempts reports
  the next abnormal closure and schedules nothing.
\<close>

theorem configured_limits_unused:
  "uploadTimer (snd processVideo_start) \<noteq> Armed (UPLOAD_TIMEOUT (CONFIG True)) \<and>
   uploadTimer (snd processVideo_start) \<noteq> Armed (UPLOAD_TIMEOUT (CONFIG False)) \<and>
   reconnectAttempts (fst retried_session) < MAX_RETRY_ATTEMPTS (CONFIG False) \<and>
   calls (fst (channel_step never_throws silent silent (WsClose 1006) retried_session)) =
     calls (fst retried_session) @ [OnError exhausted] \<and>
   timers (fst (channel_step never_throws silent silent (WsClose 1006) retried_session)) = []"
  by (simp add: processVideo_start_eq CONFIG_def DEV_CONFIG_def PROD_CONFIG_def
      retried_session_eq ws_onclose_def call_onError_def maxReconnectAttempts_def Let_def
      exhausted_def)

text \<open>
  Claim C9, amended. The orchestrator and the channel use constants of their own, whatever
  configuration is selected. The executor arms the overall timer with 180000 ms and the
  timer of the upload race with 120000 ms, and each rejects the workflow when it fires
  first. The counter of reconnection attempts is limited to 3: over any stretch of a
  session without an open event at most 3 reconnections are scheduled. An open event
  resets the counter, so a session that keeps reopening reconnects more often (five times
  in the run shown). The overall delay equals the configured \<open>PROCESSING_TIMEOUT\<close>; the
  configured \<open>UPLOAD_TIMEOUT\<close> is 60000 ms, and the configured \<open>MAX_RETRY_ATTEMPTS\<close> is 3 in
  the development configuration and 5 in production.
\<close>

theorem limits_are_constants:
  assumes "WsOpen \<notin> set later"
  shows "timeoutId (snd processVideo_start) = Armed 180000 \<and>
   uploadTimer (snd processVideo_start) = Armed 120000 \<and>
   promise (snd (step pf this DeadlineFired processVideo_start)) =
     Rejected (Error ''Overall processing timeout (3 minutes)'') \<and>
   promise (snd (step pf this UploadTimerFired processVideo_start)) =
     Rejected (Error ''Upload timeout after 2 minutes'') \<and>
   maxReconnectAttempts = 3 \<and>
   scheduled (calls (fst (channel_run ct su oe later
       (channel_run ct su oe es (connectToProcessing ct svc v su oe c))))) \<le>
     scheduled (calls (fst (channel_run ct su oe es (connectToProcessing ct svc v su oe c)))) + 3 \<and>
   (ws ch = Some CONNECTING \<longrightarrow>
      reconnectAttempts (fst (channel_step ct su oe WsOpen (ch, c))) = 0) \<and>
   scheduled (calls (fst (channel_run never_throws silent silent reopening_run fresh_session)))
     = 5 \<and>
   PROCESSING_TIMEOUT (CONFIG isDevelopment) = 180000 \<and>
   UPLOAD_TIMEOUT (CONFIG isDevelopment) = 60000 \<and>
   MAX_RETRY_ATTEMPTS (CONFIG isDevelopment) = (if isDevelopment then 3 else 5)"
proof -
  let ?s = "channel_run ct su oe es (connectToProcessing ct svc v su oe c)"
  have "reconnectAttempts (fst (connectToProcessing ct svc v su oe c)) \<le> 3"
    by (simp add: connectToProcessing_attempts)
  then have "reconnectAttempts (fst ?s) \<le> 3" by (rule channel_run_attempts)
  then have "reconnectAttempts (fst (channel_run ct su oe later ?s)) \<le> 3"
    by (rule channel_run_attempts)
  with channel_run_budget [OF assms, of ct su oe ?s]
  have bound: "scheduled (calls (fst (channel_run ct su oe later ?s))) \<le>
                 scheduled (calls (fst ?s)) + 3"
    by linarith
  have reset: "ws ch = Some CONNECTING \<longrightarrow>
      reconnectAttempts (fst (channel_step ct su oe WsOpen (ch, c))) = 0"
    by (simp add: ws_onopen_def)
  have lits: "timeoutId (snd processVideo_start) = Armed 180000 \<and>
      uploadTimer (snd processVideo_start) = Armed 120000 \<and> maxReconnectAttempts = 3 \<and>
      PROCESSING_TIMEOUT (CONFIG isDevelopment) = 180000 \<and>
      UPLOAD_TIMEOUT (CONFIG isDevelopment) = 60000 \<and>
      MAX_RETRY_ATTEMPTS (CONFIG isDevelopment) = (if isDevelopment then 3 else 5)"
    by (simp add: processVideo_start_eq maxReconnectAttempts_def CONFIG_def DEV_CONFIG_def
        PROD_CONFIG_def)
  show ?thesis using bound reset lits start_timers_fire [of pf this] reopening_reconnects
    by blast
qed

theorem limits_are_constants_witness:
  "WsOpen \<notin> set abnormal_closes \<and>
   scheduled (calls (fst (channel_run never_throws silent silent abnormal_closes fresh_session)))
     \<le> scheduled (calls (fst fresh_session)) + 3 \<and>
   scheduled (calls (fst fresh_session)) = 0 \<and>
   reconnectAttempts (fst (channel_step never_throws silent silent WsOpen fresh_session)) = 0"
proof -
  have a: "WsOpen \<notin> set abnormal_closes" by (simp add: abnormal_closes_def)
  have f: "channel_run never_throws silent silent []
             (connectToProcessing never_throws
                \<lparr>baseUrl = ''https://host'', wsUrl = ''wss://host''\<rparr> ''v1'' silent silent ()) =
           fresh_session"
    by (simp add: fresh_session_def)
  have o: "ws (fst fresh_session) = Some CONNECTING" by (simp add: fresh_session_eq)
  have p: "fresh_session = (fst fresh_session, ())" by (simp add: fresh_session_eq)
  note t = limits_are_constants [OF a, of device apiService never_throws silent silent "[]"
      "\<lparr>baseUrl = ''https://host'', wsUrl = ''wss://host''\<rparr>" "''v1''" "()"
      "fst fresh_session" True, unfolded f]
  from t have 1: "scheduled (calls (fst (channel_run never_throws silent silent abnormal_closes
      fresh_session))) \<le> scheduled (calls (fst fresh_session)) + 3"
    by blast
  from t o have "reconnectAttempts (fst (channel_step never_throws silent silent WsOpen
      (fst fresh_session, ()))) = 0"
    by blast
  then have 2: "reconnectAttempts (fst (channel_step never_throws silent silent WsOpen
      fresh_session)) = 0"
    using p by simp
  have 3: "scheduled (calls (fst fresh_session)) = 0" by (simp add: fresh_session_eq)
  show ?thesis using a 1 2 3 by blast
qed

subsection \<open>The accepted upload\<close>

text \<open>
  Claim C10, as stated: on every 2xx response \<open>uploadVideo\<close> resolves with the parsed body.
  On a 2xx response whose body is not JSON, \<open>response.json()\<close> throws inside the \<open>try\<close>
  block and \<open>uploadVideo\<close> rejects with the error its \<open>catch\<close> block builds.
\<close>

theorem uploadVideo_2xx_not_json:
  "ok html_upload_response \<and>
   uploadVideo (FetchResponse html_upload_response) =
     Inl (Error ''Upload failed: JSON Parse error: Unexpected token: <'')"
  by (simp add: html_upload_response_def uploadVideo_def uploadVideo_try_def
      uploadVideo_catch_def ok_def str_eval)

text \<open>
  Claim C10, amended. On a 2xx response whose body parses as JSON, \<open>uploadVideo\<close> resolves
  with the parsed body as it is, whatever its \<open>status\<close> and \<open>video_id\<close>, missing or not. The
  comparison with \<open>received\<close> is made by the orchestrator, after \<open>uploadVideo\<close> has
  resolved: another status rejects the workflow with \<open>Upload failed with status: ...\<close>,
  and \<open>received\<close> lets it report progress 30 and open the channel. On a 2xx response
  whose body is not JSON, \<open>uploadVideo\<close> rejects with the error its \<open>catch\<close> block builds
  from the parse error, and the workflow is rejected with it.
\<close>

theorem uploadVideo_returns_body_unchecked:
  assumes "ok response"
  shows "(\<forall>u. body_json response = Inr u \<longrightarrow>
           uploadVideo (FetchResponse response) = Inr u \<and>
           (upload_status u \<noteq> Some ''received'' \<longrightarrow>
              step pf this (FetchSettled (FetchResponse response)) processVideo_start =
                (None, \<lparr>promise = Rejected (Error (''Upload failed with status: ''
                                                      @ template (upload_status u))),
                        timeoutId = Cleared, uploadTimer = Armed 120000,
                        uploadPending = False, racePending = False, wsCleanup = False,
                        randomCalls = 0,
                        trace = [StatusText ''Uploading video...'', Progress 10,
                                 Settled (Rejected (Error (''Upload failed with status: ''
                                                            @ template (upload_status u))))]\<rparr>)) \<and>
           (upload_status u = Some ''received'' \<longrightarrow>
              step pf this (FetchSettled (FetchResponse response)) processVideo_start =
                (let (ch, w) = connectToProcessing (ctor_throws pf) this (template (video_id u))
                                 (statusCallback (random pf)) errorCallback
                                 \<lparr>promise = Pending, timeoutId = Armed 180000,
                                  uploadTimer = Armed 120000, uploadPending = False,
                                  racePending = False, wsCleanup = False, randomCalls = 0,
                                  trace = [StatusText ''Uploading video...'', Progress 10,
                                           Progress 30,
                                           StatusText ''Video uploaded, starting analysis...'']\<rparr>
                 in (Some ch, w\<lparr>wsCleanup := True\<rparr>)))) \<and>
         (\<forall>err. body_json response = Inl err \<longrightarrow>
            uploadVideo (FetchResponse response) = Inl (uploadVideo_catch err) \<and>
            promise (snd (step pf this (FetchSettled (FetchResponse response))
                            processVideo_start)) = Rejected (uploadVideo_catch err))"
proof -
  have up: "uploadVideo (FetchResponse response) = Inr u" if "body_json response = Inr u" for u
    using assms that by (simp add: uploadVideo_def uploadVideo_try_def)
  have rej: "step pf this (FetchSettled (FetchResponse response)) processVideo_start =
              (None, \<lparr>promise = Rejected (Error (''Upload failed with status: ''
                                                    @ template (upload_status u))),
                      timeoutId = Cleared, uploadTimer = Armed 120000,
                      uploadPending = False, racePending = False, wsCleanup = False,
                      randomCalls = 0,
                      trace = [StatusText ''Uploading video...'', Progress 10,
                               Settled (Rejected (Error (''Upload failed with status: ''
                                                          @ template (upload_status u))))]\<rparr>)"
    if "body_json response = Inr u" "upload_status u \<noteq> Some ''received''" for u
    using that(2)
    by (simp add: processVideo_start_eq up [OF that(1)] processVideo_resume_def
        processVideo_catch_def clearTimeout_def reject_def Let_def)
  have acc: "step pf this (FetchSettled (FetchResponse response)) processVideo_start =
              (let (ch, w) = connectToProcessing (ctor_throws pf) this (template (video_id u))
                               (statusCallback (random pf)) errorCallback
                               \<lparr>promise = Pending, timeoutId = Armed 180000,
                                uploadTimer = Armed 120000, uploadPending = False,
                                racePending = False, wsCleanup = False, randomCalls = 0,
                                trace = [StatusText ''Uploading video...'', Progress 10,
                                         Progress 30,
                                         StatusText ''Video uploaded, starting analysis...'']\<rparr>
               in (Some ch, w\<lparr>wsCleanup := True\<rparr>))"
    if "body_json response = Inr u" "upload_status u = Some ''received''" for u
    using that(2)
    by (simp add: processVideo_start_eq up [OF that(1)] processVideo_resume_def
        user_onProgress_def user_onStatusUpdate_def)
  have bad: "uploadVideo (FetchResponse response) = Inl (uploadVideo_catch err)"
    if "body_json response = Inl err" for err
    using assms that by (simp add: uploadVideo_def uploadVideo_try_def)
  have bad_step: "promise (snd (step pf this (FetchSettled (FetchResponse response))
                            processVideo_start)) = Rejected (uploadVideo_catch err)"
    if "body_json response = Inl err" for err
    by (simp add: processVideo_start_eq bad [OF that] processVideo_resume_def
        processVideo_catch_def clearTimeout_def reject_def Let_def)
  show ?thesis using up rej acc bad bad_step by blast
qed

theorem uploadVideo_returns_body_unchecked_witness:
  "uploadVideo (FetchResponse statusless_response) =
     Inr \<lparr>upload_status = None, video_id = Some ''v1''\<rparr> \<and>
   promise (snd (step device apiService (FetchSettled (FetchResponse statusless_response))
                   processVideo_start)) =
     Rejected (Error ''Upload failed with status: undefined'') \<and>
   uploadVideo (FetchResponse received_response) =
     Inr \<lparr>upload_status = Some ''received'', video_id = Some ''v1''\<rparr> \<and>
   step device apiService (FetchSettled (FetchResponse received_response)) processVideo_start =
     connected \<and>
   promise (snd (step device apiService (FetchSettled (FetchResponse html_upload_response))
                   processVideo_start)) =
     Rejected (Error ''Upload failed: JSON Parse error: Unexpected token: <'')"
proof -
  have a: "ok statusless_response"
    "body_json statusless_response = Inr \<lparr>upload_status = None, video_id = Some ''v1''\<rparr>"
    by (simp_all add: statusless_response_def ok_def)
  have b: "ok received_response"
    "body_json received_response = Inr \<lparr>upload_status = Some ''received'', video_id = Some ''v1''\<rparr>"
    by (simp_all add: received_response_def ok_def)
  have c: "ok html_upload_response"
    "body_json html_upload_response = Inl (Error ''JSON Parse error: Unexpected token: <'')"
    by (simp_all add: html_upload_response_def ok_def)
  note ta = uploadVideo_returns_body_unchecked [OF a(1), of device apiService,
      THEN conjunct1, rule_format, OF a(2)]
  note tb = uploadVideo_returns_body_unchecked [OF b(1), of device apiService,
      THEN conjunct1, rule_format, OF b(2)]
  note tc = uploadVideo_returns_body_unchecked [OF c(1), of device apiService,
      THEN conjunct2, rule_format, OF c(2)]
  from ta have 1: "uploadVideo (FetchResponse statusless_response) =
     Inr \<lparr>upload_status = None, video_id = Some ''v1''\<rparr>" by blast
  from ta have 2: "promise (snd (step device apiService
       (FetchSettled (FetchResponse statusless_response)) processVideo_start)) =
     Rejected (Error ''Upload failed with status: undefined'')"
    by (simp add: template_def del: step.simps)
  from tb have 3: "uploadVideo (FetchResponse received_response) =
     Inr \<lparr>upload_status = Some ''received'', video_id = Some ''v1''\<rparr>" by blast
  from tb have 4: "step device apiService (FetchSettled (FetchResponse received_response))
     processVideo_start = connected"
    by (simp add: connectToProcessing_def new_channel_def connect_def device_def
        apiService_def never_throws_def template_def connected_def Let_def del: step.simps)
  from tc have 5: "promise (snd (step device apiService
       (FetchSettled (FetchResponse html_upload_response)) processVideo_start)) =
     Rejected (Error ''Upload failed: JSON Parse error: Unexpected token: <'')"
    by (simp add: uploadVideo_catch_def str_eval del: step.simps)
  show ?thesis using 1 2 3 4 5 by blast
qed

end
